theory Spec2Isabelle
  imports Complex_Main "HOL-Library.Sublist" "HOL-Library.AList"
begin

section \<open>Python values: strings, dicts, exceptions\<close>

text \<open>
  File contents are byte lists, S3 custom metadata and Python dicts with string keys are
  association lists read with \<open>map_of\<close> (a dict keeps one value per key, so writes go
  through \<open>AList.update\<close>), and every exception the modelled code can raise is a
  constructor of \<open>exn\<close>. A log line is kept by its level and the fixed part of its
  message; interpolated numbers are left out.
\<close>

type_synonym bytes = "nat list"
type_synonym metadata = "(string \<times> string) list"

datatype exn =
    NotFoundError
  | IntegrityMismatchError
  | DiffDecodeError
  | DiffEncodeError
  | ValueError
  | KeyError
  | AttributeError
  | ZeroDivisionError
  | RuntimeError
  | StorageError
  | CacheError

datatype log_event =
    LogDebug string
  | LogInfo string
  | LogWarning string
  | LogError string

definition startswith :: "string \<Rightarrow> string \<Rightarrow> bool" where
  "startswith s p = prefix p s"

definition endswith :: "string \<Rightarrow> string \<Rightarrow> bool" where
  "endswith s x = suffix x s"

text \<open>\<open>s.rsplit(sep, 1)[0]\<close>: the text before the last occurrence of \<open>sep\<close>, or all
  of \<open>s\<close> when \<open>sep\<close> does not occur.\<close>

definition rsplit1_head :: "string \<Rightarrow> string \<Rightarrow> string" where
  "rsplit1_head s sep =
     (case filter (\<lambda>i. prefix sep (drop i s)) (rev [0..<Suc (length s)]) of
        [] \<Rightarrow> s
      | i # _ \<Rightarrow> take i s)"

section \<open>Bucket statistics (client_operations/stats.py)\<close>

text \<open>
  \<open>ObjectInfo\<close> and \<open>BucketStats\<close> are declared in client_models.py; the fields below
  are the ones stats.py reads and writes. Sizes are Python ints. The ratio is a Python
  float obtained by true division of two ints; it is kept here as the exact quotient.
\<close>

record ObjectInfo =
  oi_key :: string
  oi_size :: int
  oi_original_size :: int
  oi_compressed_size :: int
  oi_is_delta :: bool
  oi_reference_key :: "string option"

record BucketStats =
  bucket :: string
  object_count :: int
  total_size :: int
  compressed_size :: int
  space_saved :: int
  average_compression_ratio :: rat
  delta_objects :: int
  direct_objects :: int

definition is_reference_bin :: "string \<Rightarrow> bool" where
  "is_reference_bin k = (endswith k ''/reference.bin'' \<or> k = ''reference.bin'')"

definition orphan_banner :: string where
  "orphan_banner = ''WARNING: ORPHANED REFERENCE FILE(S) DETECTED!''"

definition reference_path :: "string \<Rightarrow> string" where
  "reference_path deltaspace =
     (if deltaspace \<noteq> [] then deltaspace @ ''/reference.bin'' else ''reference.bin'')"

definition log_orphaned_references ::
  "string \<Rightarrow> (string \<times> int) list \<Rightarrow> int \<Rightarrow> log_event list" where
  "log_orphaned_references bkt reference_files total_reference_size =
     [LogWarning orphan_banner]
     @ map (\<lambda>(deltaspace, sz). LogWarning (''  - s3://'' @ bkt @ ''/'' @ reference_path deltaspace))
         reference_files
     @ [LogWarning ''Consider removing these orphaned files:'']
     @ map (\<lambda>(deltaspace, sz). LogWarning (''  aws s3 rm s3://'' @ bkt @ ''/'' @ reference_path deltaspace))
         reference_files
     @ [LogWarning ''============================================================'']"

text \<open>First loop of \<open>_calculate_bucket_statistics\<close>: the dict deltaspace -> size of
  the reference.bin files, and the two counters.\<close>

definition first_pass_step ::
  "ObjectInfo \<Rightarrow> (string \<times> int) list \<times> int \<times> int \<Rightarrow> (string \<times> int) list \<times> int \<times> int" where
  "first_pass_step obj acc =
     (case acc of (reference_files, delta_count, direct_count) \<Rightarrow>
        if is_reference_bin (oi_key obj) then
          (let deltaspace =
               (if CHR ''/'' \<in> set (oi_key obj) then rsplit1_head (oi_key obj) ''/reference.bin''
                else [])
           in (AList.update deltaspace (oi_size obj) reference_files, delta_count, direct_count))
        else if oi_is_delta obj then (reference_files, delta_count + 1, direct_count)
        else (reference_files, delta_count, direct_count + 1))"

definition first_pass :: "ObjectInfo list \<Rightarrow> (string \<times> int) list \<times> int \<times> int" where
  "first_pass all_objects = fold first_pass_step all_objects ([], 0, 0)"

text \<open>Second loop: the two size totals, with the log lines of the delta branch.\<close>

definition second_pass_step ::
  "ObjectInfo \<Rightarrow> int \<times> int \<times> log_event list \<Rightarrow> int \<times> int \<times> log_event list" where
  "second_pass_step obj acc =
     (case acc of (total_original_size, total_compressed_size, lg) \<Rightarrow>
        if is_reference_bin (oi_key obj) then acc
        else if oi_is_delta obj then
          (if oi_original_size obj \<noteq> 0 \<and> oi_original_size obj \<noteq> oi_size obj then
             (total_original_size + oi_original_size obj, total_compressed_size + oi_size obj,
              lg @ [LogDebug (''Delta '' @ oi_key obj @ '': using original_size'')])
           else
             (total_original_size + oi_size obj, total_compressed_size + oi_size obj,
              lg @ [LogWarning (''Delta '' @ oi_key obj @ '': no original_size, using compressed size'')]))
        else (total_original_size + oi_size obj, total_compressed_size + oi_size obj, lg))"

definition second_pass :: "ObjectInfo list \<Rightarrow> int \<times> int \<times> log_event list" where
  "second_pass all_objects = fold second_pass_step all_objects (0, 0, [])"

definition calculate_bucket_statistics ::
  "ObjectInfo list \<Rightarrow> string \<Rightarrow> BucketStats \<times> log_event list" where
  "calculate_bucket_statistics all_objects bkt =
     (case first_pass all_objects of (reference_files, delta_count, direct_count) \<Rightarrow>
      case second_pass all_objects of (total_original_size, compressed0, lg0) \<Rightarrow>
        let total_reference_size = sum_list (map snd reference_files);
            (total_compressed_size, lg) =
              (if delta_count > 0 \<and> total_reference_size > 0 then
                 (compressed0 + total_reference_size,
                  lg0 @ [LogInfo ''Including reference.bin file(s) in compressed size''])
               else if delta_count = 0 \<and> total_reference_size > 0 then
                 (compressed0, lg0 @ log_orphaned_references bkt reference_files total_reference_size)
               else (compressed0, lg0));
            saved = total_original_size - total_compressed_size;
            avg_ratio = (if total_original_size > 0 then of_int saved / of_int total_original_size
                         else 0)
        in (\<lparr> bucket = bkt,
              object_count = delta_count + direct_count,
              total_size = total_original_size,
              compressed_size = total_compressed_size,
              space_saved = saved,
              average_compression_ratio = avg_ratio,
              delta_objects = delta_count,
              direct_objects = direct_count \<rparr>, lg))"

text \<open>The words of the specification, for comparison with the code: "at least one delta
  references any of the collected reference.bin files".\<close>

definition some_delta_references_collected :: "ObjectInfo list \<Rightarrow> bool" where
  "some_delta_references_collected all_objects =
     (\<exists>d \<in> set all_objects. \<exists>r \<in> set all_objects.
        oi_is_delta d \<and> \<not> is_reference_bin (oi_key d) \<and> is_reference_bin (oi_key r)
        \<and> oi_reference_key d = Some (oi_key r))"

definition collected_reference_files :: "ObjectInfo list \<Rightarrow> (string \<times> int) list" where
  "collected_reference_files all_objects = fst (first_pass all_objects)"

definition total_reference_size :: "ObjectInfo list \<Rightarrow> int" where
  "total_reference_size all_objects = sum_list (map snd (collected_reference_files all_objects))"

definition listed_deltas :: "ObjectInfo list \<Rightarrow> ObjectInfo list" where
  "listed_deltas all_objects =
     filter (\<lambda>obj. \<not> is_reference_bin (oi_key obj) \<and> oi_is_delta obj) all_objects"

definition stored_size_without_references :: "ObjectInfo list \<Rightarrow> int" where
  "stored_size_without_references all_objects =
     sum_list (map oi_size (filter (\<lambda>obj. \<not> is_reference_bin (oi_key obj)) all_objects))"

definition orphan_example :: "ObjectInfo list" where
  "orphan_example =
     [\<lparr> oi_key = ''a/reference.bin'', oi_size = 100, oi_original_size = 100,
        oi_compressed_size = 100, oi_is_delta = False, oi_reference_key = None \<rparr>,
      \<lparr> oi_key = ''b/x.zip.delta'', oi_size = 10, oi_original_size = 50,
        oi_compressed_size = 10, oi_is_delta = True, oi_reference_key = Some ''b/reference.bin'' \<rparr>]"

subsection \<open>Collecting the listing, page by page\<close>

text \<open>
  The storage port's \<open>list_objects\<close> is an external collaborator: it is a parameter
  here, a function of the call number (the store may change between calls) and of
  \<open>start_after\<close>, that returns a page or raises. A page is the response dict read with
  \<open>.get\<close>: objects (default empty), is_truncated, next_continuation_token. A listed
  object is a dict holding 'key' and 'size', as the docstring of
  \<open>_collect_objects_with_pagination\<close> says.
\<close>

record raw_object =
  ro_key :: string
  ro_size :: int

record list_response =
  rsp_objects :: "raw_object list"
  rsp_is_truncated :: bool
  rsp_next_continuation_token :: "string option"

type_synonym list_objects_port = "nat \<Rightarrow> string option \<Rightarrow> exn + list_response"

definition pagination_error_warning :: log_event where
  "pagination_error_warning = LogWarning ''_collect_objects: Pagination error. Returning partial results.''"

text \<open>The \<open>while True\<close> loop. \<open>iteration_count\<close> is the number of iterations already
  started; the loop leaves by \<open>break\<close> (the result is the objects collected) or by the
  RuntimeError raised when the listing fails with nothing collected, which the outer
  handler of the function raises again as RuntimeError for the same reason.\<close>

function collect_loop ::
  "list_objects_port \<Rightarrow> nat \<Rightarrow> nat \<Rightarrow> string option \<Rightarrow> raw_object list \<Rightarrow> log_event list
   \<Rightarrow> (exn + raw_object list) \<times> log_event list" where
  "collect_loop list_objects max_iterations iteration_count start_after raw_objects lg =
     (if Suc iteration_count > max_iterations then
        (Inr raw_objects,
         lg @ [LogWarning ''_collect_objects: Reached max iterations. Returning partial results.''])
      else
        (case list_objects (Suc iteration_count) start_after of
           Inl e \<Rightarrow>
             if length raw_objects = 0 then (Inl RuntimeError, lg)
             else (Inr raw_objects, lg @ [pagination_error_warning])
         | Inr response \<Rightarrow>
             if \<not> rsp_is_truncated response then (Inr (raw_objects @ rsp_objects response), lg)
             else
               (case rsp_next_continuation_token response of
                  None \<Rightarrow>
                    (Inr (raw_objects @ rsp_objects response),
                     lg @ [LogWarning ''_collect_objects: Pagination bug (truncated=True, no token).''])
                | Some tok \<Rightarrow>
                    if tok = [] then
                      (Inr (raw_objects @ rsp_objects response),
                       lg @ [LogWarning ''_collect_objects: Pagination bug (truncated=True, no token).''])
                    else
                      collect_loop list_objects max_iterations (Suc iteration_count) (Some tok)
                        (raw_objects @ rsp_objects response) lg)))"
  by pat_completeness auto
termination
  by (relation "measure (\<lambda>(lo, max_iterations, iteration_count, sa, ro, lg). max_iterations - iteration_count)")
     auto

declare collect_loop.simps [simp del]

definition collect_objects_with_pagination ::
  "list_objects_port \<Rightarrow> nat \<Rightarrow> (exn + raw_object list) \<times> log_event list" where
  "collect_objects_with_pagination list_objects max_iterations =
     collect_loop list_objects max_iterations 0 None [] []"

text \<open>
  \<open>_fetch_delta_metadata\<close> heads every delta key on a thread pool and keeps what arrives
  in time; every exception and timeout inside it is caught there. The parameter
  \<open>fetch\<close> gives, for a key, the metadata that arrived (None for a failed, late or
  missing head); an empty metadata dict is dropped as in \<open>fetch_single_metadata\<close>.
\<close>

definition fetch_delta_metadata ::
  "(string \<Rightarrow> metadata option) \<Rightarrow> string list \<Rightarrow> (string \<times> metadata) list" where
  "fetch_delta_metadata fetch delta_keys =
     concat (map (\<lambda>k. case fetch k of
                         None \<Rightarrow> []
                       | Some md \<Rightarrow> if md \<noteq> [] then [(k, md)] else []) delta_keys)"

text \<open>\<open>_build_object_info_list\<close>. \<open>py_int\<close> is Python's \<open>int\<close> on a string (None when
  it raises ValueError).\<close>

definition build_object_info ::
  "(string \<Rightarrow> int option) \<Rightarrow> (string \<times> metadata) list \<Rightarrow> raw_object \<Rightarrow> ObjectInfo" where
  "build_object_info py_int metadata_map obj_dict =
     (let k = ro_key obj_dict;
          sz = ro_size obj_dict;
          is_delta = endswith k ''.delta'';
          md = (case map_of metadata_map k of None \<Rightarrow> [] | Some m \<Rightarrow> m);
          original_size =
            (if is_delta \<and> md \<noteq> [] then
               (case map_of md ''file_size'' of
                  None \<Rightarrow> sz
                | Some v \<Rightarrow> (case py_int v of None \<Rightarrow> sz | Some n \<Rightarrow> n))
             else sz)
      in \<lparr> oi_key = k, oi_size = sz, oi_original_size = original_size,
           oi_compressed_size = sz, oi_is_delta = is_delta,
           oi_reference_key = (if md \<noteq> [] then map_of md ''ref_key'' else None) \<rparr>)"

definition build_object_info_list ::
  "(string \<Rightarrow> int option) \<Rightarrow> raw_object list \<Rightarrow> (string \<times> metadata) list \<Rightarrow> ObjectInfo list" where
  "build_object_info_list py_int raw_objects metadata_map =
     map (build_object_info py_int metadata_map) raw_objects"

definition empty_stats :: "string \<Rightarrow> BucketStats" where
  "empty_stats bkt =
     \<lparr> bucket = bkt, object_count = 0, total_size = 0, compressed_size = 0, space_saved = 0,
       average_compression_ratio = 0, delta_objects = 0, direct_objects = 0 \<rparr>"

record stats_client =
  sc_list_objects :: list_objects_port
  sc_fetch :: "string \<Rightarrow> metadata option"
  sc_py_int :: "string \<Rightarrow> int option"

text \<open>The body of the \<open>try\<close> of \<open>get_bucket_stats\<close>, phases 1 to 5.\<close>

definition bucket_stats_of ::
  "stats_client \<Rightarrow> string \<Rightarrow> bool \<Rightarrow> raw_object list \<Rightarrow> BucketStats \<times> log_event list" where
  "bucket_stats_of client bkt detailed_stats raw_objects =
     (let delta_keys = map ro_key (filter (\<lambda>obj. endswith (ro_key obj) ''.delta'') raw_objects);
          metadata_map = (if detailed_stats \<and> delta_keys \<noteq> []
                          then fetch_delta_metadata (sc_fetch client) delta_keys else []);
          all_objects = build_object_info_list (sc_py_int client) raw_objects metadata_map
      in calculate_bucket_statistics all_objects bkt)"

definition get_bucket_stats_try ::
  "stats_client \<Rightarrow> string \<Rightarrow> bool \<Rightarrow> (exn + BucketStats) \<times> log_event list" where
  "get_bucket_stats_try client bkt detailed_stats =
     (case collect_objects_with_pagination (sc_list_objects client) 10000 of
        (Inl e, lg) \<Rightarrow> (Inl e, lg)
      | (Inr raw_objects, lg) \<Rightarrow>
          (case bucket_stats_of client bkt detailed_stats raw_objects of
             (stats, lg') \<Rightarrow> (Inr stats, lg @ lg')))"

definition empty_stats_error :: log_event where
  "empty_stats_error = LogError ''get_bucket_stats: Failed to build statistics. Returning empty stats.''"

text \<open>\<open>get_bucket_stats\<close>: the \<open>try\<close> and its \<open>except Exception\<close> handler. The result
  type keeps the possibility of a raise, so that its absence is a theorem.\<close>

definition get_bucket_stats ::
  "stats_client \<Rightarrow> string \<Rightarrow> bool \<Rightarrow> (exn + BucketStats) \<times> log_event list" where
  "get_bucket_stats client bkt detailed_stats =
     (case get_bucket_stats_try client bkt detailed_stats of
        (Inr stats, lg) \<Rightarrow> (Inr stats, lg)
      | (Inl e, lg) \<Rightarrow> (Inr (empty_stats bkt), lg @ [empty_stats_error]))"

definition one_page_then_failure :: stats_client where
  "one_page_then_failure =
     \<lparr> sc_list_objects = (\<lambda>n start_after.
          if n = 1 then
            Inr \<lparr> rsp_objects = [\<lparr> ro_key = ''rel/photo.jpg'', ro_size = 7 \<rparr>],
                  rsp_is_truncated = True, rsp_next_continuation_token = Some ''t1'' \<rparr>
          else Inl StorageError),
       sc_fetch = (\<lambda>k. None),
       sc_py_int = (\<lambda>s. None) \<rparr>"

definition failing_listing :: stats_client where
  "failing_listing =
     \<lparr> sc_list_objects = (\<lambda>n start_after. Inl StorageError),
       sc_fetch = (\<lambda>k. None),
       sc_py_int = (\<lambda>s. None) \<rparr>"

section \<open>DeltaService (core/service.py): data and ports\<close>

text \<open>
  \<open>split\<close>, \<open>join\<close> and the decimal text of a non-negative int, as Python computes them.
\<close>

fun split_on :: "char \<Rightarrow> string \<Rightarrow> string list" where
  "split_on c [] = [[]]"
| "split_on c (x # xs) =
     (if x = c then [] # split_on c xs
      else (case split_on c xs of [] \<Rightarrow> [[x]] | y # ys \<Rightarrow> (x # y) # ys))"

fun join :: "string \<Rightarrow> string list \<Rightarrow> string" where
  "join sep [] = []"
| "join sep [x] = x"
| "join sep (x # y # ys) = x @ sep @ join sep (y # ys)"

text \<open>\<open>"/".join(key.split("/")[:-1])\<close>\<close>

definition parent_prefix :: "string \<Rightarrow> string" where
  "parent_prefix k = join ''/'' (butlast (split_on CHR ''/'' k))"

text \<open>\<open>s.rstrip("/")\<close>\<close>

definition rstrip_slash :: "string \<Rightarrow> string" where
  "rstrip_slash s = rev (dropWhile (\<lambda>c. c = CHR ''/'') (rev s))"

definition digit_of :: "nat \<Rightarrow> char" where
  "digit_of d = char_of (48 + d)"

function str_nat :: "nat \<Rightarrow> string" where
  "str_nat n = (if n < 10 then [digit_of n] else str_nat (n div 10) @ [digit_of (n mod 10)])"
  by pat_completeness auto
termination
  by (relation "measure (\<lambda>n. n)") auto

declare str_nat.simps [simp del]

definition is_digit :: "char \<Rightarrow> bool" where
  "is_digit c = (48 \<le> (of_char c :: nat) \<and> (of_char c :: nat) \<le> 57)"

definition nat_of_str :: "string \<Rightarrow> nat option" where
  "nat_of_str s =
     (if s \<noteq> [] \<and> list_all is_digit s
      then Some (foldl (\<lambda>a c. 10 * a + (of_char c - 48)) 0 s)
      else None)"

text \<open>Python truthiness of \<open>str | None\<close>.\<close>

definition truthy :: "string option \<Rightarrow> bool" where
  "truthy v = (case v of None \<Rightarrow> False | Some s \<Rightarrow> s \<noteq> [])"

subsection \<open>core/models.py\<close>

text \<open>
  Modelled from the spec: core/models.py (\<open>ObjectKey\<close>, \<open>DeltaSpace\<close>, \<open>ReferenceMeta\<close>,
  \<open>DeltaMeta\<close>, \<open>PutSummary\<close>, \<open>DeleteResult\<close>, \<open>RecursiveDeleteResult\<close>,
  \<open>resolve_metadata\<close>) is not part of the sources at hand. The spec gives the fields
  (section 3), \<open>full_key = bucket + "/" + key\<close>, \<open>reference_key() = prefix +
  "/reference.bin"\<close> (\<open>"reference.bin"\<close> for the empty prefix), and the two namespaces of
  a metadata key: the bare name and the \<open>dg-\<close> form (\<open>file_sha256\<close> and
  \<open>dg-file-sha256\<close>). Writers emit the \<open>dg-\<close> form, the one \<open>get\<close> tests for;
  the reader helper accepts both, the \<open>dg-\<close> form first.
\<close>

record ObjectKey =
  ok_bucket :: string
  ok_key :: string

definition full_key :: "ObjectKey \<Rightarrow> string" where
  "full_key k = ok_bucket k @ ''/'' @ ok_key k"

record DeltaSpace =
  ds_bucket :: string
  ds_prefix :: string

definition reference_key :: "DeltaSpace \<Rightarrow> string" where
  "reference_key ds = (if ds_prefix ds \<noteq> [] then ds_prefix ds @ ''/reference.bin'' else ''reference.bin'')"

definition dg_key :: "string \<Rightarrow> string" where
  "dg_key name = ''dg-'' @ map (\<lambda>c. if c = CHR ''_'' then CHR ''-'' else c) name"

definition resolve_metadata :: "metadata \<Rightarrow> string \<Rightarrow> string option" where
  "resolve_metadata md name =
     (case map_of md (dg_key name) of Some v \<Rightarrow> Some v | None \<Rightarrow> map_of md name)"

record ReferenceMeta =
  rm_tool :: string
  rm_source_name :: string
  rm_file_sha256 :: string
  rm_created_at :: string

definition ReferenceMeta_to_dict :: "ReferenceMeta \<Rightarrow> metadata" where
  "ReferenceMeta_to_dict m =
     [(''dg-tool'', rm_tool m), (''dg-source-name'', rm_source_name m),
      (''dg-file-sha256'', rm_file_sha256 m), (''dg-created-at'', rm_created_at m)]"

record DeltaMeta =
  dm_tool :: string
  dm_original_name :: string
  dm_file_sha256 :: string
  dm_file_size :: nat
  dm_created_at :: string
  dm_ref_key :: string
  dm_ref_sha256 :: string
  dm_delta_size :: nat
  dm_delta_cmd :: string
  dm_note :: "string option"

definition DeltaMeta_to_dict :: "DeltaMeta \<Rightarrow> metadata" where
  "DeltaMeta_to_dict m =
     [(''dg-tool'', dm_tool m), (''dg-original-name'', dm_original_name m),
      (''dg-file-sha256'', dm_file_sha256 m), (''dg-file-size'', str_nat (dm_file_size m)),
      (''dg-created-at'', dm_created_at m), (''dg-ref-key'', dm_ref_key m),
      (''dg-ref-sha256'', dm_ref_sha256 m), (''dg-delta-size'', str_nat (dm_delta_size m)),
      (''dg-delta-cmd'', dm_delta_cmd m)]
     @ (case dm_note m of None \<Rightarrow> [] | Some n \<Rightarrow> [(''dg-note'', n)])"

text \<open>A required field that is missing is a KeyError, a size that is not a decimal
  number a ValueError.\<close>

definition required :: "metadata \<Rightarrow> string \<Rightarrow> exn + string" where
  "required md name = (case resolve_metadata md name of None \<Rightarrow> Inl KeyError | Some v \<Rightarrow> Inr v)"

definition required_nat :: "metadata \<Rightarrow> string \<Rightarrow> exn + nat" where
  "required_nat md name =
     (case resolve_metadata md name of
        None \<Rightarrow> Inl KeyError
      | Some v \<Rightarrow> (case nat_of_str v of None \<Rightarrow> Inl ValueError | Some n \<Rightarrow> Inr n))"

definition DeltaMeta_from_dict :: "metadata \<Rightarrow> exn + DeltaMeta" where
  "DeltaMeta_from_dict md =
     (case required md ''tool'' of Inl e \<Rightarrow> Inl e | Inr tool \<Rightarrow>
      case required md ''original_name'' of Inl e \<Rightarrow> Inl e | Inr original_name \<Rightarrow>
      case required md ''file_sha256'' of Inl e \<Rightarrow> Inl e | Inr file_sha256 \<Rightarrow>
      case required_nat md ''file_size'' of Inl e \<Rightarrow> Inl e | Inr file_size \<Rightarrow>
      case required md ''created_at'' of Inl e \<Rightarrow> Inl e | Inr created_at \<Rightarrow>
      case required md ''ref_key'' of Inl e \<Rightarrow> Inl e | Inr ref_key \<Rightarrow>
      case required md ''ref_sha256'' of Inl e \<Rightarrow> Inl e | Inr ref_sha256 \<Rightarrow>
      case required_nat md ''delta_size'' of Inl e \<Rightarrow> Inl e | Inr delta_size \<Rightarrow>
      case required md ''delta_cmd'' of Inl e \<Rightarrow> Inl e | Inr delta_cmd \<Rightarrow>
        Inr \<lparr> dm_tool = tool, dm_original_name = original_name, dm_file_sha256 = file_sha256,
              dm_file_size = file_size, dm_created_at = created_at, dm_ref_key = ref_key,
              dm_ref_sha256 = ref_sha256, dm_delta_size = delta_size, dm_delta_cmd = delta_cmd,
              dm_note = resolve_metadata md ''note'' \<rparr>)"

record PutSummary =
  ps_operation :: string
  ps_bucket :: string
  ps_key :: string
  ps_original_name :: string
  ps_file_size :: nat
  ps_file_sha256 :: string
  ps_delta_size :: "nat option"
  ps_delta_ratio :: "rat option"
  ps_ref_key :: "string option"
  ps_ref_sha256 :: "string option"
  ps_cache_hit :: bool

record DeleteResult =
  dr_key :: string
  dr_bucket :: string
  dr_deleted :: bool
  dr_type :: string
  dr_warnings :: "string list"
  dr_original_name :: "string option"
  dr_dependent_deltas :: nat
  dr_cleaned_reference :: "string option"

record RecursiveDeleteResult =
  rd_bucket :: string
  rd_prefix :: string
  rd_deleted_count :: int
  rd_failed_count :: int
  rd_deltas_deleted :: int
  rd_references_deleted :: int
  rd_direct_deleted :: int
  rd_other_deleted :: int
  rd_errors :: "string list"
  rd_warnings :: "string list"

subsection \<open>The world the service acts on\<close>

text \<open>
  Modelled from the spec: the object-store port (ports/storage.py and its adapter) and the
  reference cache adapters are not part of the sources at hand. The store is the one of
  spec section 6.1: \<open>head\<close>, \<open>get\<close>, \<open>put\<close>, \<open>list\<close> and \<open>delete\<close> on full keys
  \<open>bucket/key\<close>, metadata stored as given; a listing returns the keys of the bucket that
  start with the prefix, relative to the bucket. \<open>delete\<close> raises for the keys in
  \<open>undeletable\<close> (a denied or failed request) and succeeds otherwise. The cache is the
  in-memory backend of spec section 4.4, a mapping from \<open>(bucket, prefix)\<close> to bytes
  whose content anyone may have changed.

  The destination of \<open>get\<close> is a path (the file there, if any) or a byte stream (the
  bytes written so far). Temporary files are kept by name while they exist.
\<close>

record stored_object =
  so_data :: bytes
  so_metadata :: metadata

record ObjectHead =
  oh_size :: nat
  oh_metadata :: metadata

datatype sink = PathSink "bytes option" | StreamSink bytes

datatype port_call = StoragePut string | StorageDelete string | DiffEncode | DiffDecode

record world =
  objects :: "((string \<times> string) \<times> stored_object) list"
  undeletable :: "(string \<times> string) list"
  cache :: "((string \<times> string) \<times> bytes) list"
  tmp_files :: "string list"
  out :: sink
  calls :: "port_call list"
  logged :: "log_event list"

definition split_full_key :: "string \<Rightarrow> string \<times> string" where
  "split_full_key fk =
     (takeWhile (\<lambda>c. c \<noteq> CHR ''/'') fk, drop 1 (dropWhile (\<lambda>c. c \<noteq> CHR ''/'') fk))"

definition storage_head :: "world \<Rightarrow> string \<Rightarrow> ObjectHead option" where
  "storage_head w fk =
     (case map_of (objects w) (split_full_key fk) of
        None \<Rightarrow> None
      | Some obj \<Rightarrow> Some \<lparr> oh_size = length (so_data obj), oh_metadata = so_metadata obj \<rparr>)"

definition storage_get :: "world \<Rightarrow> string \<Rightarrow> exn + bytes" where
  "storage_get w fk =
     (case map_of (objects w) (split_full_key fk) of
        None \<Rightarrow> Inl NotFoundError
      | Some obj \<Rightarrow> Inr (so_data obj))"

definition storage_put :: "world \<Rightarrow> string \<Rightarrow> bytes \<Rightarrow> metadata \<Rightarrow> world" where
  "storage_put w fk data md =
     w\<lparr> objects := AList.update (split_full_key fk) \<lparr> so_data = data, so_metadata = md \<rparr> (objects w),
        calls := calls w @ [StoragePut fk] \<rparr>"

definition storage_list :: "world \<Rightarrow> string \<Rightarrow> string list" where
  "storage_list w fp =
     (case split_full_key fp of (b, p) \<Rightarrow>
        map (\<lambda>e. snd (fst e)) (filter (\<lambda>e. fst (fst e) = b \<and> prefix p (snd (fst e))) (objects w)))"

definition storage_delete :: "world \<Rightarrow> string \<Rightarrow> exn + world" where
  "storage_delete w fk =
     (if split_full_key fk \<in> set (undeletable w) then Inl StorageError
      else Inr (w\<lparr> objects := AList.delete (split_full_key fk) (objects w),
                   calls := calls w @ [StorageDelete fk] \<rparr>))"

text \<open>The ports that compute: hasher, diff engine, clock, the delta-candidate test of
  core/delta_extensions.py (absent; a parameter), and whether the cache object handed to
  the service has the attribute \<open>get_validated_ref\<close>, which the \<open>CachePort\<close> protocol of
  ports/cache.py does not declare.\<close>

record ports =
  sha256 :: "bytes \<Rightarrow> string"
  diff_encode :: "bytes \<Rightarrow> bytes \<Rightarrow> bytes option"
  diff_decode :: "bytes \<Rightarrow> bytes \<Rightarrow> bytes option"
  is_delta_candidate :: "string \<Rightarrow> bool"
  tool_version :: string
  clock_now :: string
  service_max_ratio :: rat
  cache_has_get_validated_ref :: bool

text \<open>The members the protocol class \<open>CachePort\<close> declares (ports/cache.py).\<close>

definition CachePort_members :: "string list" where
  "CachePort_members = [''ref_path'', ''has_ref'', ''write_ref'', ''evict'']"

definition cache_has_ref :: "ports \<Rightarrow> world \<Rightarrow> string \<Rightarrow> string \<Rightarrow> string \<Rightarrow> bool" where
  "cache_has_ref P w b p sha =
     (case map_of (cache w) (b, p) of None \<Rightarrow> False | Some d \<Rightarrow> sha256 P d = sha)"

definition cache_write_ref :: "world \<Rightarrow> string \<Rightarrow> string \<Rightarrow> bytes \<Rightarrow> world" where
  "cache_write_ref w b p src = w\<lparr> cache := AList.update (b, p) src (cache w) \<rparr>"

definition cache_get_validated_ref ::
  "ports \<Rightarrow> world \<Rightarrow> string \<Rightarrow> string \<Rightarrow> string \<Rightarrow> exn + bytes" where
  "cache_get_validated_ref P w b p sha =
     (if \<not> cache_has_get_validated_ref P then Inl AttributeError
      else (case map_of (cache w) (b, p) of
              None \<Rightarrow> Inl CacheError
            | Some d \<Rightarrow> if sha256 P d = sha then Inr d else Inl CacheError))"

definition cache_evict :: "world \<Rightarrow> string \<Rightarrow> string \<Rightarrow> world" where
  "cache_evict w b p = w\<lparr> cache := AList.delete (b, p) (cache w) \<rparr>"

definition log_warning :: "world \<Rightarrow> string \<Rightarrow> world" where
  "log_warning w msg = w\<lparr> logged := logged w @ [LogWarning msg] \<rparr>"

definition mk_tmp :: "world \<Rightarrow> string \<Rightarrow> world" where
  "mk_tmp w name = w\<lparr> tmp_files := name # tmp_files w \<rparr>"

definition rm_tmp :: "world \<Rightarrow> string \<Rightarrow> world" where
  "rm_tmp w name = w\<lparr> tmp_files := remove1 name (tmp_files w) \<rparr>"

definition should_use_delta :: "ports \<Rightarrow> string \<Rightarrow> bool" where
  "should_use_delta P filename = is_delta_candidate P filename"

subsection \<open>get\<close>

text \<open>\<open>_cache_reference\<close>: the temporary file is created with \<open>delete=False\<close> and
  unlinked by hand on the two paths that reach an \<open>unlink\<close>.\<close>

definition cache_reference :: "ports \<Rightarrow> world \<Rightarrow> DeltaSpace \<Rightarrow> string \<Rightarrow> (exn + unit) \<times> world" where
  "cache_reference P w delta_space expected_sha =
     (let full_ref_key = ds_bucket delta_space @ ''/'' @ reference_key delta_space;
          w1 = mk_tmp w ''tmp_ref''
      in case storage_get w1 full_ref_key of
           Inl e \<Rightarrow> (Inl e, w1)
         | Inr data \<Rightarrow>
             if sha256 P data \<noteq> expected_sha then (Inl IntegrityMismatchError, rm_tmp w1 ''tmp_ref'')
             else (Inr (), rm_tmp (cache_write_ref w1 (ds_bucket delta_space) (ds_prefix delta_space) data)
                             ''tmp_ref''))"

definition write_out :: "world \<Rightarrow> bytes \<Rightarrow> world" where
  "write_out w data =
     (case out w of
        PathSink f \<Rightarrow> w\<lparr> out := PathSink (Some data) \<rparr>
      | StreamSink written \<Rightarrow> w\<lparr> out := StreamSink (written @ data) \<rparr>)"

definition is_path :: "sink \<Rightarrow> bool" where
  "is_path s = (case s of PathSink f \<Rightarrow> True | StreamSink written \<Rightarrow> False)"

text \<open>\<open>_get_direct\<close>: the bytes go to the destination first; the hash of the written
  file is compared afterwards, when a SHA is found under either name and the destination
  is a path.\<close>

definition get_direct :: "ports \<Rightarrow> world \<Rightarrow> ObjectKey \<Rightarrow> ObjectHead \<Rightarrow> (exn + unit) \<times> world" where
  "get_direct P w object_key obj_head =
     (case storage_get w (full_key object_key) of
        Inl e \<Rightarrow> (Inl e, w)
      | Inr data \<Rightarrow>
          (let w1 = write_out w data;
               expected_sha = resolve_metadata (oh_metadata obj_head) ''file_sha256''
           in if truthy expected_sha then
                (if is_path (out w) then
                   (if Some (sha256 P data) \<noteq> expected_sha then (Inl IntegrityMismatchError, w1)
                    else (Inr (), w1))
                 else (Inr (), log_warning w1 ''Cannot verify SHA256 for stream output''))
              else (Inr (), w1)))"

text \<open>The body of the \<open>with tempfile.TemporaryDirectory()\<close> block of \<open>get\<close>; the
  block's exit, which removes the directory with what is left in it, is in \<open>get_delta\<close>.\<close>

definition decode_in_tmpdir ::
  "ports \<Rightarrow> world \<Rightarrow> ObjectKey \<Rightarrow> DeltaSpace \<Rightarrow> DeltaMeta \<Rightarrow> (exn + unit) \<times> world" where
  "decode_in_tmpdir P w object_key delta_space delta_meta =
     (case cache_get_validated_ref P w (ds_bucket delta_space) (ds_prefix delta_space)
             (dm_ref_sha256 delta_meta) of
        Inl e \<Rightarrow> (Inl e, w)
      | Inr ref \<Rightarrow>
          (let w1 = mk_tmp w ''tmpdir/delta''
           in case storage_get w1 (full_key object_key) of
                Inl e \<Rightarrow> (Inl e, w1)
              | Inr delta \<Rightarrow>
                  (let w2 = w1\<lparr> calls := calls w1 @ [DiffDecode] \<rparr>
                   in case diff_decode P ref delta of
                        None \<Rightarrow> (Inl DiffDecodeError, w2)
                      | Some output \<Rightarrow>
                          (let w3 = mk_tmp w2 ''tmpdir/output''
                           in if sha256 P output \<noteq> dm_file_sha256 delta_meta then
                                (Inl IntegrityMismatchError, w3)
                              else if is_path (out w3) then
                                (Inr (), rm_tmp (w3\<lparr> out := PathSink (Some output) \<rparr>) ''tmpdir/output'')
                              else (Inr (), write_out w3 output)))))"

definition leave_tmpdir :: "world \<Rightarrow> world" where
  "leave_tmpdir w =
     (let inside = takeWhile (\<lambda>n. n \<noteq> ''tmpdir'') (tmp_files w);
          older = drop 1 (dropWhile (\<lambda>n. n \<noteq> ''tmpdir'') (tmp_files w))
      in w\<lparr> tmp_files := filter (\<lambda>n. \<not> prefix ''tmpdir/'' n) inside @ older \<rparr>)"

text \<open>The delta branch of \<open>get\<close>, from the parsed metadata on.\<close>

definition get_delta :: "ports \<Rightarrow> world \<Rightarrow> ObjectKey \<Rightarrow> DeltaMeta \<Rightarrow> (exn + unit) \<times> world" where
  "get_delta P w object_key delta_meta =
     (let deltaspace_prefix =
            (if CHR ''/'' \<in> set (dm_ref_key delta_meta) then parent_prefix (dm_ref_key delta_meta)
             else []);
          delta_space = \<lparr> ds_bucket = ok_bucket object_key, ds_prefix = deltaspace_prefix \<rparr>;
          cache_hit = cache_has_ref P w (ds_bucket delta_space) (ds_prefix delta_space)
                        (dm_ref_sha256 delta_meta)
      in case (if \<not> cache_hit then cache_reference P w delta_space (dm_ref_sha256 delta_meta)
               else (Inr (), w)) of
           (Inl e, w1) \<Rightarrow> (Inl e, w1)
         | (Inr u, w1) \<Rightarrow>
             (case decode_in_tmpdir P (mk_tmp w1 ''tmpdir'') object_key delta_space delta_meta of
                (r, w2) \<Rightarrow> (r, leave_tmpdir w2)))"

definition get :: "ports \<Rightarrow> world \<Rightarrow> ObjectKey \<Rightarrow> (exn + unit) \<times> world" where
  "get P w object_key =
     (case storage_head w (full_key object_key) of
        None \<Rightarrow> (Inl NotFoundError, w)
      | Some obj_head \<Rightarrow>
          if map_of (oh_metadata obj_head) ''dg-file-sha256'' = None then
            get_direct P w object_key obj_head
          else if map_of (oh_metadata obj_head) ''compression'' = Some ''none'' then
            get_direct P w object_key obj_head
          else
            (case DeltaMeta_from_dict (oh_metadata obj_head) of
               Inl e \<Rightarrow> (Inl e, w)
             | Inr delta_meta \<Rightarrow> get_delta P w object_key delta_meta))"

subsection \<open>put\<close>

record local_file =
  lf_name :: string
  lf_data :: bytes

definition upload_direct ::
  "ports \<Rightarrow> world \<Rightarrow> local_file \<Rightarrow> DeltaSpace \<Rightarrow> string \<Rightarrow> string \<Rightarrow> nat
   \<Rightarrow> (exn + PutSummary) \<times> world" where
  "upload_direct P w file delta_space file_sha256 original_name file_size =
     (let k = (if ds_prefix delta_space \<noteq> [] then ds_prefix delta_space @ ''/'' @ original_name
               else original_name);
          fk = ds_bucket delta_space @ ''/'' @ k;
          md = [(''tool'', tool_version P), (''original_name'', original_name),
                (''file_sha256'', file_sha256), (''file_size'', str_nat file_size),
                (''created_at'', clock_now P), (''compression'', ''none'')]
      in (Inr \<lparr> ps_operation = ''upload_direct'', ps_bucket = ds_bucket delta_space, ps_key = k,
                 ps_original_name = original_name, ps_file_size = file_size,
                 ps_file_sha256 = file_sha256, ps_delta_size = None, ps_delta_ratio = None,
                 ps_ref_key = None, ps_ref_sha256 = None, ps_cache_hit = False \<rparr>,
          storage_put w fk (lf_data file) md))"

definition delta_key_of :: "DeltaSpace \<Rightarrow> string \<Rightarrow> string" where
  "delta_key_of delta_space original_name =
     (if ds_prefix delta_space \<noteq> [] then ds_prefix delta_space @ ''/'' @ original_name @ ''.delta''
      else original_name @ ''.delta'')"

definition delta_cmd_of :: "string \<Rightarrow> string" where
  "delta_cmd_of original_name =
     ''xdelta3 -e -9 -s reference.bin '' @ original_name @ '' '' @ original_name @ ''.delta''"

text \<open>
  \<open>_create_reference\<close>. Between the upload of the reference and the second \<open>head\<close>
  other writers may act on the store: \<open>others\<close> is what they do there (the identity
  when nobody else writes). The diff engine is not guarded by a \<open>try\<close> here, so its
  failure leaves as it is raised.
\<close>

definition create_reference ::
  "ports \<Rightarrow> (world \<Rightarrow> world) \<Rightarrow> world \<Rightarrow> local_file \<Rightarrow> DeltaSpace \<Rightarrow> string \<Rightarrow> string \<Rightarrow> nat
   \<Rightarrow> (exn + PutSummary) \<times> world" where
  "create_reference P others w file delta_space file_sha256 original_name file_size =
     (let ref_key = reference_key delta_space;
          full_ref_key = ds_bucket delta_space @ ''/'' @ ref_key;
          ref_meta = \<lparr> rm_tool = tool_version P, rm_source_name = original_name,
                       rm_file_sha256 = file_sha256, rm_created_at = clock_now P \<rparr>;
          w1 = others (storage_put w full_ref_key (lf_data file) (ReferenceMeta_to_dict ref_meta));
          ref_head = storage_head w1 full_ref_key;
          existing_sha = (case ref_head of None \<Rightarrow> None
                          | Some h \<Rightarrow> resolve_metadata (oh_metadata h) ''file_sha256'');
          raced = (ref_head \<noteq> None \<and> truthy existing_sha \<and> existing_sha \<noteq> Some file_sha256);
          ref_sha256 = (if raced then the existing_sha else file_sha256);
          w2 = (if raced then log_warning w1 ''Reference creation race detected, using existing''
                else w1);
          w3 = cache_write_ref w2 (ds_bucket delta_space) (ds_prefix delta_space) (lf_data file);
          delta_key = delta_key_of delta_space original_name;
          full_delta_key = ds_bucket delta_space @ ''/'' @ delta_key;
          w4 = mk_tmp w3 ''zero_delta'';
          w5 = w4\<lparr> calls := calls w4 @ [DiffEncode] \<rparr>
      in case diff_encode P (lf_data file) (lf_data file) of
           None \<Rightarrow> (Inl DiffEncodeError, rm_tmp w5 ''zero_delta'')
         | Some zero_delta \<Rightarrow>
             (let delta_meta =
                    \<lparr> dm_tool = tool_version P, dm_original_name = original_name,
                      dm_file_sha256 = file_sha256, dm_file_size = file_size,
                      dm_created_at = clock_now P, dm_ref_key = ref_key,
                      dm_ref_sha256 = ref_sha256, dm_delta_size = length zero_delta,
                      dm_delta_cmd = delta_cmd_of original_name,
                      dm_note = Some ''zero-diff (reference identical)'' \<rparr>;
                  w6 = storage_put w5 full_delta_key zero_delta (DeltaMeta_to_dict delta_meta)
              in (Inr \<lparr> ps_operation = ''create_reference'', ps_bucket = ds_bucket delta_space,
                         ps_key = ref_key, ps_original_name = original_name,
                         ps_file_size = file_size, ps_file_sha256 = file_sha256,
                         ps_delta_size = None, ps_delta_ratio = None, ps_ref_key = None,
                         ps_ref_sha256 = None, ps_cache_hit = False \<rparr>,
                  rm_tmp w6 ''zero_delta'')))"

text \<open>The \<open>with tempfile.NamedTemporaryFile(suffix=".delta")\<close> block of
  \<open>_create_delta\<close>; the caller removes the file when the block is left.\<close>

definition encode_and_upload ::
  "ports \<Rightarrow> world \<Rightarrow> local_file \<Rightarrow> DeltaSpace \<Rightarrow> bytes \<Rightarrow> string \<Rightarrow> string \<Rightarrow> string \<Rightarrow> nat
   \<Rightarrow> rat \<Rightarrow> bool \<Rightarrow> (exn + PutSummary) \<times> world" where
  "encode_and_upload P w file delta_space ref ref_sha256 file_sha256 original_name file_size
       max_ratio cache_hit =
     (let ref_key = reference_key delta_space;
          w1 = w\<lparr> calls := calls w @ [DiffEncode] \<rparr>
      in case diff_encode P ref (lf_data file) of
           None \<Rightarrow> (Inl DiffEncodeError, w1)
         | Some delta \<Rightarrow>
             if file_size = 0 then (Inl ZeroDivisionError, w1)
             else
               (let delta_size = length delta;
                    delta_ratio = (of_nat delta_size / of_nat file_size :: rat);
                    w2 = (if delta_ratio > max_ratio
                          then log_warning w1 ''Delta ratio exceeds threshold'' else w1);
                    delta_key = delta_key_of delta_space original_name;
                    full_delta_key = ds_bucket delta_space @ ''/'' @ delta_key;
                    delta_meta =
                      \<lparr> dm_tool = tool_version P, dm_original_name = original_name,
                        dm_file_sha256 = file_sha256, dm_file_size = file_size,
                        dm_created_at = clock_now P, dm_ref_key = ref_key,
                        dm_ref_sha256 = ref_sha256, dm_delta_size = delta_size,
                        dm_delta_cmd = delta_cmd_of original_name, dm_note = None \<rparr>;
                    w3 = storage_put w2 full_delta_key delta (DeltaMeta_to_dict delta_meta)
                in (Inr \<lparr> ps_operation = ''create_delta'', ps_bucket = ds_bucket delta_space,
                           ps_key = delta_key, ps_original_name = original_name,
                           ps_file_size = file_size, ps_file_sha256 = file_sha256,
                           ps_delta_size = Some delta_size, ps_delta_ratio = Some delta_ratio,
                           ps_ref_key = Some ref_key, ps_ref_sha256 = Some ref_sha256,
                           ps_cache_hit = cache_hit \<rparr>, w3)))"

definition create_delta ::
  "ports \<Rightarrow> world \<Rightarrow> local_file \<Rightarrow> DeltaSpace \<Rightarrow> ObjectHead \<Rightarrow> string \<Rightarrow> string \<Rightarrow> nat \<Rightarrow> rat
   \<Rightarrow> (exn + PutSummary) \<times> world" where
  "create_delta P w file delta_space ref_head file_sha256 original_name file_size max_ratio =
     (let ref_sha = resolve_metadata (oh_metadata ref_head) ''file_sha256''
      in if \<not> truthy ref_sha then (Inl ValueError, w)
         else
           (let ref_sha256 = the ref_sha;
                cache_hit = cache_has_ref P w (ds_bucket delta_space) (ds_prefix delta_space) ref_sha256
            in case (if \<not> cache_hit then cache_reference P w delta_space ref_sha256
                     else (Inr (), w)) of
                 (Inl e, w1) \<Rightarrow> (Inl e, w1)
               | (Inr u, w1) \<Rightarrow>
                   (case cache_get_validated_ref P w1 (ds_bucket delta_space)
                           (ds_prefix delta_space) ref_sha256 of
                      Inl e \<Rightarrow> (Inl e, w1)
                    | Inr ref \<Rightarrow>
                        (case encode_and_upload P (mk_tmp w1 ''delta_file'') file delta_space ref
                                ref_sha256 file_sha256 original_name file_size max_ratio cache_hit of
                           (r, w2) \<Rightarrow> (r, rm_tmp w2 ''delta_file'')))))"

definition put ::
  "ports \<Rightarrow> (world \<Rightarrow> world) \<Rightarrow> world \<Rightarrow> local_file \<Rightarrow> DeltaSpace \<Rightarrow> rat option \<Rightarrow> string option
   \<Rightarrow> (exn + PutSummary) \<times> world" where
  "put P others w file delta_space max_ratio override_name =
     (let max_ratio = (case max_ratio of None \<Rightarrow> service_max_ratio P | Some r \<Rightarrow> r);
          file_size = length (lf_data file);
          file_sha256 = sha256 P (lf_data file);
          original_name = (if truthy override_name then the override_name else lf_name file)
      in if \<not> should_use_delta P original_name then
           upload_direct P w file delta_space file_sha256 original_name file_size
         else
           (case storage_head w (ds_bucket delta_space @ ''/'' @ reference_key delta_space) of
              None \<Rightarrow>
                create_reference P others w file delta_space file_sha256 original_name file_size
            | Some ref_head \<Rightarrow>
                create_delta P w file delta_space ref_head file_sha256 original_name file_size
                  max_ratio))"

subsection \<open>delete\<close>

definition new_delete_result :: "ObjectKey \<Rightarrow> DeleteResult" where
  "new_delete_result object_key =
     \<lparr> dr_key = ok_key object_key, dr_bucket = ok_bucket object_key, dr_deleted = False,
       dr_type = ''unknown'', dr_warnings = [], dr_original_name = None,
       dr_dependent_deltas = 0, dr_cleaned_reference = None \<rparr>"

definition delete_reference ::
  "world \<Rightarrow> ObjectKey \<Rightarrow> string \<Rightarrow> DeleteResult \<Rightarrow> (exn + DeleteResult) \<times> world" where
  "delete_reference w object_key fk result =
     (let pfx = (if CHR ''/'' \<in> set (ok_key object_key) then rsplit1_head (ok_key object_key) ''/''
                 else []);
          dependent_deltas =
            filter (\<lambda>k. endswith k ''.delta'' \<and> k \<noteq> ok_key object_key
                        \<and> (case storage_head w (ok_bucket object_key @ ''/'' @ k) of
                              None \<Rightarrow> False
                            | Some delta_head \<Rightarrow>
                                map_of (oh_metadata delta_head) ''ref_key'' = Some (ok_key object_key)))
              (storage_list w (ok_bucket object_key @ ''/'' @ pfx));
          result1 = (if dependent_deltas \<noteq> []
                     then result\<lparr> dr_warnings := dr_warnings result
                            @ [''Reference has dependent delta(s). Deleting this will make those deltas unrecoverable.''] \<rparr>
                     else result);
          w1 = (if dependent_deltas \<noteq> [] then log_warning w ''Reference has dependent deltas'' else w)
      in case storage_delete w1 fk of
           Inl e \<Rightarrow> (Inl e, w1)
         | Inr w2 \<Rightarrow>
             (Inr (result1\<lparr> dr_deleted := True, dr_type := ''reference'',
                            dr_dependent_deltas := length dependent_deltas \<rparr>),
              if CHR ''/'' \<in> set (ok_key object_key)
              then cache_evict w2 (ok_bucket object_key) (rsplit1_head (ok_key object_key) ''/'')
              else w2))"

definition delete_delta ::
  "world \<Rightarrow> ObjectKey \<Rightarrow> string \<Rightarrow> ObjectHead \<Rightarrow> DeleteResult \<Rightarrow> (exn + DeleteResult) \<times> world" where
  "delete_delta w object_key fk obj_head result =
     (case storage_delete w fk of
        Inl e \<Rightarrow> (Inl e, w)
      | Inr w1 \<Rightarrow>
          (let result1 = result\<lparr> dr_deleted := True, dr_type := ''delta'',
                                 dr_original_name :=
                                   Some (case map_of (oh_metadata obj_head) ''original_name'' of
                                           None \<Rightarrow> ''unknown'' | Some n \<Rightarrow> n) \<rparr>
           in if CHR ''/'' \<notin> set (ok_key object_key) then (Inr result1, w1)
              else
                (let deltaspace_prefix = parent_prefix (ok_key object_key);
                     ref_key = deltaspace_prefix @ ''/reference.bin'';
                     remaining_deltas =
                       filter (\<lambda>k. endswith k ''.delta'' \<and> k \<noteq> ok_key object_key)
                         (storage_list w1 (ok_bucket object_key @ ''/'' @ deltaspace_prefix))
                 in if remaining_deltas = [] then
                      (let ref_full_key = ok_bucket object_key @ ''/'' @ ref_key
                       in case storage_head w1 ref_full_key of
                            None \<Rightarrow> (Inr result1, w1)
                          | Some ref_head \<Rightarrow>
                              (case storage_delete w1 ref_full_key of
                                 Inl e \<Rightarrow> (Inl e, w1)
                               | Inr w2 \<Rightarrow>
                                   (Inr (result1\<lparr> dr_cleaned_reference := Some ref_key \<rparr>),
                                    cache_evict w2 (ok_bucket object_key) deltaspace_prefix)))
                    else (Inr result1, w1))))"

definition delete :: "world \<Rightarrow> ObjectKey \<Rightarrow> (exn + DeleteResult) \<times> world" where
  "delete w object_key =
     (let fk = full_key object_key
      in case storage_head w fk of
           None \<Rightarrow> (Inl NotFoundError, w)
         | Some obj_head \<Rightarrow>
             (let result = new_delete_result object_key
              in if endswith (ok_key object_key) ''/reference.bin'' then
                   delete_reference w object_key fk result
                 else if endswith (ok_key object_key) ''.delta'' then
                   delete_delta w object_key fk obj_head result
                 else if map_of (oh_metadata obj_head) ''compression'' = Some ''none'' then
                   (case storage_delete w fk of
                      Inl e \<Rightarrow> (Inl e, w)
                    | Inr w1 \<Rightarrow>
                        (Inr (result\<lparr> dr_deleted := True, dr_type := ''direct'',
                                       dr_original_name :=
                                         Some (case map_of (oh_metadata obj_head) ''original_name'' of
                                                 None \<Rightarrow> ok_key object_key | Some n \<Rightarrow> n) \<rparr>), w1))
                 else
                   (case storage_delete w fk of
                      Inl e \<Rightarrow> (Inl e, w)
                    | Inr w1 \<Rightarrow> (Inr (result\<lparr> dr_deleted := True, dr_type := ''unknown'' \<rparr>), w1))))"

subsection \<open>delete_recursive\<close>

text \<open>\<open>_classify_objects_for_deletion\<close>: the loop over the listing. The set of affected
  deltaspaces is kept as a duplicate-free list, in the order of first insertion.\<close>

definition classify_step ::
  "world \<Rightarrow> string \<Rightarrow> string \<Rightarrow> string
   \<Rightarrow> string list \<times> string list \<times> string list \<times> string list \<times> string list
   \<Rightarrow> string list \<times> string list \<times> string list \<times> string list \<times> string list" where
  "classify_step w bkt pfx k acc =
     (case acc of (references, deltas, direct_uploads, other_objects, affected_deltaspaces) \<Rightarrow>
        if pfx \<noteq> [] \<and> \<not> startswith k pfx then acc
        else if endswith k ''/reference.bin'' then
          (references @ [k], deltas, direct_uploads, other_objects, affected_deltaspaces)
        else if endswith k ''.delta'' then
          (references, deltas @ [k], direct_uploads, other_objects,
           if CHR ''/'' \<in> set k then List.insert (parent_prefix k) affected_deltaspaces
           else affected_deltaspaces)
        else
          (case storage_head w (bkt @ ''/'' @ k) of
             None \<Rightarrow> (references, deltas, direct_uploads, other_objects @ [k], affected_deltaspaces)
           | Some obj_head \<Rightarrow>
               if map_of (oh_metadata obj_head) ''compression'' = Some ''none''
               then (references, deltas, direct_uploads @ [k], other_objects, affected_deltaspaces)
               else (references, deltas, direct_uploads, other_objects @ [k], affected_deltaspaces)))"

definition classify_objects_for_deletion ::
  "world \<Rightarrow> string \<Rightarrow> string
   \<Rightarrow> string list \<times> string list \<times> string list \<times> string list \<times> string list" where
  "classify_objects_for_deletion w bkt pfx =
     fold (classify_step w bkt pfx)
       (storage_list w (if pfx \<noteq> [] then bkt @ ''/'' @ pfx else bkt))
       ([], [], [], [], [])"

text \<open>The loop of \<open>delete_recursive\<close> that adds the references of the deltaspaces
  touched by a deleted delta.\<close>

definition add_affected_reference :: "world \<Rightarrow> string \<Rightarrow> string \<Rightarrow> string list \<Rightarrow> string list" where
  "add_affected_reference w bkt ds_pfx references =
     (let ref_key = ds_pfx @ ''/reference.bin''
      in if ref_key \<notin> set references \<and> storage_head w (bkt @ ''/'' @ ref_key) \<noteq> None
         then references @ [ref_key] else references)"

text \<open>Phase 2, one key: a failed delete is counted and recorded, and the loop goes on.\<close>

definition delete_one :: "string \<Rightarrow> string \<Rightarrow> world \<times> RecursiveDeleteResult \<Rightarrow> world \<times> RecursiveDeleteResult" where
  "delete_one bkt k st =
     (case st of (w, result) \<Rightarrow>
        case storage_delete w (bkt @ ''/'' @ k) of
          Inr w1 \<Rightarrow> (w1, result\<lparr> rd_deleted_count := rd_deleted_count result + 1 \<rparr>)
        | Inl e \<Rightarrow>
            (w\<lparr> logged := logged w @ [LogError (''Failed to delete '' @ k)] \<rparr>,
             result\<lparr> rd_failed_count := rd_failed_count result + 1,
                     rd_errors := rd_errors result @ [''Failed to delete '' @ k] \<rparr>))"

text \<open>\<open>has_remaining_files\<close> of \<open>_delete_references_if_safe\<close>, for one reference.\<close>

definition has_remaining_files :: "world \<Rightarrow> string \<Rightarrow> string \<Rightarrow> string \<Rightarrow> bool" where
  "has_remaining_files w bkt pfx ref_key =
     (let deletion_prefix_full = (if pfx \<noteq> [] then bkt @ ''/'' @ pfx else bkt);
          deltaspace_prefix = (if endswith ref_key ''/reference.bin''
                               then take (length ref_key - 14) ref_key else []);
          ds_list_prefix = (if deltaspace_prefix \<noteq> [] then bkt @ ''/'' @ deltaspace_prefix else bkt)
      in list_ex (\<lambda>k. \<not> (pfx \<noteq> [] \<and> startswith (bkt @ ''/'' @ k) deletion_prefix_full)
                      \<and> k \<noteq> ref_key)
           (storage_list w ds_list_prefix))"

text \<open>The body of the loop of \<open>_delete_references_if_safe\<close>; the state is the world,
  the result and \<open>references_kept\<close>.\<close>

definition delete_reference_if_safe ::
  "string \<Rightarrow> string \<Rightarrow> string \<Rightarrow> world \<times> RecursiveDeleteResult \<times> int
   \<Rightarrow> world \<times> RecursiveDeleteResult \<times> int" where
  "delete_reference_if_safe bkt pfx ref_key st =
     (case st of (w, result, references_kept) \<Rightarrow>
        if \<not> has_remaining_files w bkt pfx ref_key then
          (case storage_delete w (bkt @ ''/'' @ ref_key) of
             Inr w1 \<Rightarrow> (w1, result\<lparr> rd_deleted_count := rd_deleted_count result + 1 \<rparr>, references_kept)
           | Inl e \<Rightarrow>
               (w\<lparr> logged := logged w @ [LogError (''Failed to delete reference '' @ ref_key)] \<rparr>,
                result\<lparr> rd_failed_count := rd_failed_count result + 1,
                        rd_errors := rd_errors result @ [''Failed to delete reference '' @ ref_key] \<rparr>,
                references_kept))
        else
          (w, result\<lparr> rd_warnings := rd_warnings result
                        @ [''Kept reference '' @ ref_key @ '' (still in use)''] \<rparr>,
           references_kept + 1))"

definition delete_references_if_safe ::
  "string \<Rightarrow> string \<Rightarrow> string list \<Rightarrow> world \<times> RecursiveDeleteResult
   \<Rightarrow> world \<times> RecursiveDeleteResult \<times> int" where
  "delete_references_if_safe bkt pfx references st =
     fold (delete_reference_if_safe bkt pfx) references (fst st, snd st, 0)"

text \<open>\<open>delete_recursive\<close> up to the end of phase 2: the references scheduled for
  deletion, and the world and result after the non-reference files were deleted. The
  prefix is the normalised one.\<close>

definition non_reference_pass ::
  "world \<Rightarrow> string \<Rightarrow> string \<Rightarrow> string list \<times> world \<times> RecursiveDeleteResult" where
  "non_reference_pass w bkt pfx =
     (case classify_objects_for_deletion w bkt pfx of
        (references0, deltas, direct_uploads, other_objects, affected_deltaspaces) \<Rightarrow>
          (let references = fold (add_affected_reference w bkt) affected_deltaspaces references0;
               result0 = \<lparr> rd_bucket = bkt, rd_prefix = pfx, rd_deleted_count = 0,
                           rd_failed_count = 0, rd_deltas_deleted = int (length deltas),
                           rd_references_deleted = int (length references),
                           rd_direct_deleted = int (length direct_uploads),
                           rd_other_deleted = int (length other_objects),
                           rd_errors = [], rd_warnings = [] \<rparr>
           in case fold (delete_one bkt) (other_objects @ direct_uploads @ deltas) (w, result0) of
                (w1, result1) \<Rightarrow> (references, w1, result1)))"

definition delete_recursive :: "world \<Rightarrow> string \<Rightarrow> string \<Rightarrow> RecursiveDeleteResult \<times> world" where
  "delete_recursive w bkt prefix0 =
     (let pfx = (if prefix0 \<noteq> [] \<and> \<not> endswith prefix0 ''/'' then prefix0 @ ''/'' else prefix0)
      in case non_reference_pass w bkt pfx of
           (references, w1, result1) \<Rightarrow>
             (case delete_references_if_safe bkt pfx references (w1, result1) of
                (w2, result2, references_kept) \<Rightarrow>
                  (result2\<lparr> rd_references_deleted := rd_references_deleted result2 - references_kept \<rparr>,
                   if references \<noteq> []
                   then cache_evict w2 bkt (if pfx \<noteq> [] then rstrip_slash pfx else [])
                   else w2)))"

subsection \<open>Example ports and worlds\<close>

text \<open>The spec's error taxonomy (section 7), on the exceptions of the model.\<close>

definition in_spec_taxonomy :: "exn \<Rightarrow> bool" where
  "in_spec_taxonomy e =
     (e = NotFoundError \<or> e = IntegrityMismatchError \<or> e = DiffDecodeError
      \<or> e = DiffEncodeError \<or> e = StorageError)"

text \<open>A small hasher and diff engine for the examples: the hash of a file is the
  parity pattern of its bytes, a delta is the target itself.\<close>

definition example_ports :: ports where
  "example_ports =
     \<lparr> sha256 = map (\<lambda>n. if even n then CHR ''e'' else CHR ''o''),
       diff_encode = (\<lambda>ref target. Some target),
       diff_decode = (\<lambda>ref delta. Some delta),
       is_delta_candidate = (\<lambda>name. endswith name ''.zip''),
       tool_version = ''deltaglider/test'',
       clock_now = ''2025-01-01T00:00:00'',
       service_max_ratio = 1 / 2,
       cache_has_get_validated_ref = True \<rparr>"

definition empty_world :: world where
  "empty_world =
     \<lparr> objects = [], undeletable = [], cache = [], tmp_files = [], out = PathSink None,
       calls = [], logged = [] \<rparr>"

text \<open>Nobody else writes to the store while \<open>put\<close> runs.\<close>

definition no_other_writer :: "world \<Rightarrow> world" where
  "no_other_writer w = w"

declare no_other_writer_def [simp]

definition foreign_world :: world where
  "foreign_world =
     empty_world\<lparr> objects := [((''b'', ''raw.bin''),
        \<lparr> so_data = [1, 2, 3], so_metadata = [(''file_sha256'', ''0000'')] \<rparr>)] \<rparr>"

definition headless_reference_world :: world where
  "headless_reference_world =
     empty_world\<lparr> objects := [((''b'', ''rel/reference.bin''),
        \<lparr> so_data = [1, 2, 3], so_metadata = [(''dg-tool'', ''other'')] \<rparr>)] \<rparr>"

definition rel_space :: DeltaSpace where
  "rel_space = \<lparr> ds_bucket = ''b'', ds_prefix = ''rel'' \<rparr>"

definition v1_zip :: local_file where
  "v1_zip = \<lparr> lf_name = ''v1.zip'', lf_data = [1, 2, 3] \<rparr>"

definition v2_zip :: local_file where
  "v2_zip = \<lparr> lf_name = ''v2.zip'', lf_data = [1, 2, 4] \<rparr>"

definition world_after_v1 :: world where
  "world_after_v1 = snd (put example_ports no_other_writer empty_world v1_zip rel_space None None)"

definition world_after_v2 :: world where
  "world_after_v2 = snd (put example_ports no_other_writer world_after_v1 v2_zip rel_space None None)"

text \<open>The same store with the bytes of the second delta damaged after the upload.\<close>

definition damaged_world :: world where
  "damaged_world =
     world_after_v2\<lparr> objects := map (\<lambda>e. if fst e = (''b'', ''rel/v2.zip.delta'')
                                          then (fst e, (snd e)\<lparr> so_data := [6, 6, 6] \<rparr>) else e)
                                  (objects world_after_v2),
                    out := StreamSink [9] \<rparr>"



text \<open>A deltaspace at the root of the bucket: the reference and one delta.\<close>

definition root_space :: DeltaSpace where
  "root_space = \<lparr> ds_bucket = ''b'', ds_prefix = [] \<rparr>"

definition root_world :: world where
  "root_world = snd (put example_ports no_other_writer empty_world v1_zip root_space None None)"


text \<open>The store after two puts into \<open>rel\<close>, where the delete of the first delta is
  refused.\<close>

definition locked_world :: world where
  "locked_world = world_after_v2\<lparr> undeletable := [(''b'', ''rel/v1.zip.delta'')] \<rparr>"





section \<open>Properties of the statistics aggregator\<close>

lemma first_pass_counts:
  "snd (fold first_pass_step objs (rf, dc, cc)) =
     (dc + int (length (listed_deltas objs)),
      cc + int (length (filter (\<lambda>obj. \<not> is_reference_bin (oi_key obj) \<and> \<not> oi_is_delta obj) objs)))"
  by (induction objs arbitrary: rf dc cc) (auto simp: first_pass_step_def listed_deltas_def Let_def)

lemma second_pass_compressed:
  "fst (snd (fold second_pass_step objs (a, b, lg))) = b + stored_size_without_references objs"
  by (induction objs arbitrary: a b lg)
     (auto simp: second_pass_step_def stored_size_without_references_def)

lemma second_pass_log:
  "LogWarning orphan_banner \<notin> set lg \<Longrightarrow>
   LogWarning orphan_banner \<notin> set (snd (snd (fold second_pass_step objs (a, b, lg))))"
  by (induction objs arbitrary: a b lg)
     (auto simp: second_pass_step_def orphan_banner_def)

lemma orphan_log_has_banner:
  "LogWarning orphan_banner \<in> set (log_orphaned_references bkt rf t)"
  by (simp add: log_orphaned_references_def)

text \<open>
  Claim C8, as the code has it: the summed sizes of the collected reference.bin files are
  added to the compressed total exactly when the listing holds at least one delta object
  (an object that is not a reference.bin and has \<open>is_delta\<close>) and that sum is positive;
  the orphaned-reference warning is logged exactly when the listing holds no delta object
  and the sum is positive. \<open>space_saved = total_size - compressed_size\<close>, and the average
  ratio is \<open>space_saved / total_size\<close> when \<open>total_size > 0\<close> and 0 otherwise.
\<close>

theorem stats_reference_sizes_follow_delta_count:
  "delta_objects (fst (calculate_bucket_statistics objs bkt)) = int (length (listed_deltas objs))
   \<and> compressed_size (fst (calculate_bucket_statistics objs bkt)) =
       stored_size_without_references objs
       + (if listed_deltas objs \<noteq> [] \<and> total_reference_size objs > 0
          then total_reference_size objs else 0)
   \<and> (LogWarning orphan_banner \<in> set (snd (calculate_bucket_statistics objs bkt))
        \<longleftrightarrow> listed_deltas objs = [] \<and> total_reference_size objs > 0)
   \<and> space_saved (fst (calculate_bucket_statistics objs bkt)) =
       total_size (fst (calculate_bucket_statistics objs bkt))
       - compressed_size (fst (calculate_bucket_statistics objs bkt))
   \<and> average_compression_ratio (fst (calculate_bucket_statistics objs bkt)) =
       (if total_size (fst (calculate_bucket_statistics objs bkt)) > 0
        then of_int (space_saved (fst (calculate_bucket_statistics objs bkt)))
             / of_int (total_size (fst (calculate_bucket_statistics objs bkt)))
        else 0)"
proof -
  obtain rf dc cc where fp: "first_pass objs = (rf, dc, cc)"
    by (cases "first_pass objs") auto
  obtain orig comp lg0 where sp: "second_pass objs = (orig, comp, lg0)"
    by (cases "second_pass objs") auto
  have dc: "dc = int (length (listed_deltas objs))"
    using first_pass_counts [of objs "[]" 0 0] fp by (simp add: first_pass_def)
  have comp: "comp = stored_size_without_references objs"
    using second_pass_compressed [of objs 0 0 "[]"] sp by (simp add: second_pass_def)
  have lg0: "LogWarning orphan_banner \<notin> set lg0"
    using second_pass_log [of "[]" objs 0 0] sp by (simp add: second_pass_def)
  have trs: "total_reference_size objs = sum_list (map snd rf)"
    by (simp add: total_reference_size_def collected_reference_files_def fp)
  have pos: "(0 < dc) = (listed_deltas objs \<noteq> [])" "(dc = 0) = (listed_deltas objs = [])"
    using dc by auto
  show ?thesis
    unfolding calculate_bucket_statistics_def fp sp trs
    using lg0 orphan_log_has_banner [of bkt rf "sum_list (map snd rf)"]
    by (simp add: Let_def pos comp dc [symmetric])
qed

theorem stats_reference_sizes_witness:
  "compressed_size (fst (calculate_bucket_statistics orphan_example ''b'')) = 110
   \<and> listed_deltas orphan_example \<noteq> []
   \<and> LogWarning orphan_banner \<notin> set (snd (calculate_bucket_statistics orphan_example ''b''))"
  using stats_reference_sizes_follow_delta_count [of orphan_example "''b''"]
  by (simp add: orphan_example_def listed_deltas_def stored_size_without_references_def
      total_reference_size_def collected_reference_files_def first_pass_def first_pass_step_def
      is_reference_bin_def endswith_def suffix_to_prefix rsplit1_head_def)

text \<open>
  Claim C8 as stated fails: in \<open>orphan_example\<close> the only delta names
  \<open>b/reference.bin\<close>, which was not collected, so no delta references a collected
  reference.bin; the 100 bytes of \<open>a/reference.bin\<close> are added all the same and no
  orphan warning is logged.
\<close>

theorem stats_reference_claim_counterexample:
  "\<not> some_delta_references_collected orphan_example
   \<and> stored_size_without_references orphan_example = 10
   \<and> total_reference_size orphan_example = 100
   \<and> compressed_size (fst (calculate_bucket_statistics orphan_example ''b'')) = 10 + 100
   \<and> LogWarning orphan_banner \<notin> set (snd (calculate_bucket_statistics orphan_example ''b''))"
  by (simp add: some_delta_references_collected_def orphan_example_def
      stored_size_without_references_def total_reference_size_def collected_reference_files_def
      calculate_bucket_statistics_def first_pass_def second_pass_def first_pass_step_def
      second_pass_step_def is_reference_bin_def endswith_def suffix_to_prefix rsplit1_head_def
      orphan_banner_def)

lemma collect_loop_failure_after_objects:
  "raw \<noteq> [] \<Longrightarrow> Suc n \<le> max_iterations \<Longrightarrow> list_objects (Suc n) tok = Inl e \<Longrightarrow>
   collect_loop list_objects max_iterations n tok raw lg = (Inr raw, lg @ [pagination_error_warning])"
  by (subst collect_loop.simps) simp

lemma collect_loop_failure_without_objects:
  "Suc n \<le> max_iterations \<Longrightarrow> list_objects (Suc n) tok = Inl e \<Longrightarrow>
   collect_loop list_objects max_iterations n tok [] lg = (Inl RuntimeError, lg)"
  by (subst collect_loop.simps) simp

lemma collect_loop_raises_only_when_empty:
  "raw \<noteq> [] \<Longrightarrow> \<exists>objs. fst (collect_loop list_objects max_iterations n tok raw lg) = Inr objs"
proof (induction list_objects max_iterations n tok raw lg rule: collect_loop.induct)
  case (1 list_objects max_iterations iteration_count start_after raw_objects lg)
  show ?case
    apply (subst collect_loop.simps)
    using 1 by (auto split: sum.splits option.splits)
qed

text \<open>
  Claim C9: \<open>get_bucket_stats\<close> returns a BucketStats on every input. When the collection
  raises (the listing failed with nothing collected) the result is the all-zeros
  BucketStats and an error is logged. A listing failure at any later iteration, with
  objects already collected, ends the loop with those objects and a warning, and the
  statistics are computed from the objects collected.
\<close>

theorem get_bucket_stats_never_raises:
  "(\<exists>stats. fst (get_bucket_stats client bkt detailed) = Inr stats)
   \<and> (fst (collect_objects_with_pagination (sc_list_objects c0) 10000) = Inl e0 \<longrightarrow>
        get_bucket_stats c0 bkt detailed
        = (Inr (empty_stats bkt),
           snd (collect_objects_with_pagination (sc_list_objects c0) 10000) @ [empty_stats_error]))
   \<and> (Suc n \<le> max_iterations \<and> list_objects (Suc n) tok = Inl e1 \<longrightarrow>
        collect_loop list_objects max_iterations n tok raw lg
        = (if raw = [] then (Inl RuntimeError, lg) else (Inr raw, lg @ [pagination_error_warning])))
   \<and> (collect_objects_with_pagination (sc_list_objects c1) 10000 = (Inr objs, lg1) \<longrightarrow>
        get_bucket_stats c1 bkt detailed
        = (Inr (fst (bucket_stats_of c1 bkt detailed objs)),
           lg1 @ snd (bucket_stats_of c1 bkt detailed objs)))"
proof (intro conjI impI)
  show "\<exists>stats. fst (get_bucket_stats client bkt detailed) = Inr stats"
    by (auto simp: get_bucket_stats_def split: prod.splits sum.splits)
next
  assume "fst (collect_objects_with_pagination (sc_list_objects c0) 10000) = Inl e0"
  then show "get_bucket_stats c0 bkt detailed
        = (Inr (empty_stats bkt),
           snd (collect_objects_with_pagination (sc_list_objects c0) 10000) @ [empty_stats_error])"
    by (cases "collect_objects_with_pagination (sc_list_objects c0) 10000")
       (simp add: get_bucket_stats_def get_bucket_stats_try_def)
next
  assume "Suc n \<le> max_iterations \<and> list_objects (Suc n) tok = Inl e1"
  then show "collect_loop list_objects max_iterations n tok raw lg
        = (if raw = [] then (Inl RuntimeError, lg) else (Inr raw, lg @ [pagination_error_warning]))"
    using collect_loop_failure_after_objects [of raw n max_iterations list_objects tok e1 lg]
      collect_loop_failure_without_objects [of n max_iterations list_objects tok e1 lg]
    by auto
next
  assume "collect_objects_with_pagination (sc_list_objects c1) 10000 = (Inr objs, lg1)"
  then show "get_bucket_stats c1 bkt detailed
        = (Inr (fst (bucket_stats_of c1 bkt detailed objs)),
           lg1 @ snd (bucket_stats_of c1 bkt detailed objs))"
    by (simp add: get_bucket_stats_def get_bucket_stats_try_def split: prod.splits)
qed

lemma collect_one_page_then_failure:
  "collect_objects_with_pagination (sc_list_objects one_page_then_failure) 10000
   = (Inr [\<lparr> ro_key = ''rel/photo.jpg'', ro_size = 7 \<rparr>], [pagination_error_warning])"
  by (simp add: collect_objects_with_pagination_def one_page_then_failure_def collect_loop.simps)

lemma collect_failing_listing:
  "collect_objects_with_pagination (sc_list_objects failing_listing) 10000 = (Inl RuntimeError, [])"
  by (simp add: collect_objects_with_pagination_def failing_listing_def collect_loop.simps)

theorem get_bucket_stats_never_raises_witness:
  "get_bucket_stats failing_listing ''b'' False = (Inr (empty_stats ''b''), [empty_stats_error])
   \<and> collect_loop (sc_list_objects one_page_then_failure) 10000 1 (Some ''t1'')
        [\<lparr> ro_key = ''rel/photo.jpg'', ro_size = 7 \<rparr>] []
      = (Inr [\<lparr> ro_key = ''rel/photo.jpg'', ro_size = 7 \<rparr>], [pagination_error_warning])
   \<and> fst (get_bucket_stats one_page_then_failure ''b'' False)
      = Inr \<lparr> bucket = ''b'', object_count = 1, total_size = 7, compressed_size = 7,
              space_saved = 0, average_compression_ratio = 0, delta_objects = 0,
              direct_objects = 1 \<rparr>
   \<and> pagination_error_warning \<in> set (snd (get_bucket_stats one_page_then_failure ''b'' False))"
  using get_bucket_stats_never_raises [of failing_listing "''b''" False failing_listing RuntimeError
      1 10000 "sc_list_objects one_page_then_failure" "Some ''t1''" StorageError
      "[\<lparr> ro_key = ''rel/photo.jpg'', ro_size = 7 \<rparr>]" "[]" one_page_then_failure
      "[\<lparr> ro_key = ''rel/photo.jpg'', ro_size = 7 \<rparr>]" "[pagination_error_warning]"]
    collect_one_page_then_failure collect_failing_listing
  by (simp add: one_page_then_failure_def bucket_stats_of_def build_object_info_list_def
      build_object_info_def calculate_bucket_statistics_def first_pass_def second_pass_def
      first_pass_step_def second_pass_step_def is_reference_bin_def endswith_def suffix_to_prefix)

section \<open>Properties of DeltaService\<close>















lemma storage_get_of_head:
  "storage_head w fk = Some h \<Longrightarrow> \<exists>d. storage_get w fk = Inr d \<and> oh_size h = length d"
  by (auto simp: storage_head_def storage_get_def split: option.splits)

lemma resolve_without_dg:
  "map_of md (dg_key name) = None \<Longrightarrow> resolve_metadata md name = map_of md name"
  by (simp add: resolve_metadata_def)

lemma dg_key_file_sha256: "dg_key ''file_sha256'' = ''dg-file-sha256''"
  by (simp add: dg_key_def)

text \<open>
  Claim C10: a delta candidate put into a deltaspace whose reference.bin exists and
  carries no file_sha256 value under either name makes \<open>put\<close> raise ValueError. The
  world is returned as it was: nothing was uploaded, no diff-engine call was made, no
  temporary file or cache entry was created. ValueError is not one of the errors of the
  spec's taxonomy.
\<close>

theorem put_reference_without_sha_raises_ValueError:
  assumes "should_use_delta P (if truthy override_name then the override_name else lf_name file)"
    and "storage_head w (ds_bucket delta_space @ ''/'' @ reference_key delta_space) = Some ref_head"
    and "\<not> truthy (map_of (oh_metadata ref_head) ''file_sha256'')"
    and "\<not> truthy (map_of (oh_metadata ref_head) ''dg-file-sha256'')"
  shows "put P others w file delta_space max_ratio override_name = (Inl ValueError, w)
         \<and> \<not> in_spec_taxonomy ValueError"
proof -
  have "\<not> truthy (resolve_metadata (oh_metadata ref_head) ''file_sha256'')"
    using assms(3,4) by (auto simp: resolve_metadata_def dg_key_file_sha256 split: option.splits)
  then show ?thesis
    using assms(1,2) by (simp add: put_def create_delta_def Let_def in_spec_taxonomy_def)
qed

theorem put_reference_without_sha_witness:
  "put example_ports no_other_writer headless_reference_world
       \<lparr> lf_name = ''v2.zip'', lf_data = [4, 5] \<rparr> \<lparr> ds_bucket = ''b'', ds_prefix = ''rel'' \<rparr>
       None None
   = (Inl ValueError, headless_reference_world)"
  using put_reference_without_sha_raises_ValueError
    [of example_ports None "\<lparr> lf_name = ''v2.zip'', lf_data = [4, 5] \<rparr>" headless_reference_world
       "\<lparr> ds_bucket = ''b'', ds_prefix = ''rel'' \<rparr>"
       "\<lparr> oh_size = 3, oh_metadata = [(''dg-tool'', ''other'')] \<rparr>" no_other_writer None]
  by (simp add: should_use_delta_def example_ports_def truthy_def endswith_def suffix_to_prefix
      storage_head_def headless_reference_world_def empty_world_def split_full_key_def
      reference_key_def)

text \<open>
  Claim C2, as the code has it: for an object whose metadata lacks \<open>dg-file-sha256\<close>,
  \<open>get\<close> writes the stored bytes to the destination as they are. No check is made
  when the destination is a byte stream or the metadata holds no non-empty bare
  \<open>file_sha256\<close>; when the destination is a path and a bare \<open>file_sha256\<close> is there,
  the written file is hashed and compared, and a difference raises
  IntegrityMismatchError after the bytes were written.
\<close>

theorem get_foreign_object:
  assumes "storage_head w (full_key object_key) = Some obj_head"
    and "map_of (oh_metadata obj_head) ''dg-file-sha256'' = None"
    and "storage_get w (full_key object_key) = Inr data"
  shows "fst (get P w object_key) =
           (if is_path (out w) \<and> truthy (map_of (oh_metadata obj_head) ''file_sha256'')
               \<and> map_of (oh_metadata obj_head) ''file_sha256'' \<noteq> Some (sha256 P data)
            then Inl IntegrityMismatchError else Inr ())
         \<and> out (snd (get P w object_key)) =
             (case out w of PathSink f \<Rightarrow> PathSink (Some data)
              | StreamSink written \<Rightarrow> StreamSink (written @ data))
         \<and> objects (snd (get P w object_key)) = objects w"
proof -
  have r: "resolve_metadata (oh_metadata obj_head) ''file_sha256''
           = map_of (oh_metadata obj_head) ''file_sha256''"
    using assms(2) by (simp add: resolve_metadata_def dg_key_file_sha256)
  show ?thesis
    using assms
    by (auto simp: get_def get_direct_def r Let_def write_out_def log_warning_def is_path_def
        split: sink.splits)
qed

theorem get_foreign_object_witness:
  "fst (get example_ports (foreign_world\<lparr> out := StreamSink [9] \<rparr>)
          \<lparr> ok_bucket = ''b'', ok_key = ''raw.bin'' \<rparr>) = Inr ()
   \<and> out (snd (get example_ports (foreign_world\<lparr> out := StreamSink [9] \<rparr>)
          \<lparr> ok_bucket = ''b'', ok_key = ''raw.bin'' \<rparr>)) = StreamSink [9, 1, 2, 3]"
  using get_foreign_object
    [of "foreign_world\<lparr> out := StreamSink [9] \<rparr>" "\<lparr> ok_bucket = ''b'', ok_key = ''raw.bin'' \<rparr>"
       "\<lparr> oh_size = 3, oh_metadata = [(''file_sha256'', ''0000'')] \<rparr>" "[1, 2, 3]" example_ports]
  by (simp add: storage_head_def storage_get_def foreign_world_def empty_world_def full_key_def
      split_full_key_def is_path_def)

text \<open>
  Claim C2 as stated fails: \<open>raw.bin\<close> has no \<open>dg-file-sha256\<close>, only a bare
  \<open>file_sha256\<close> that is not the hash of its bytes; \<open>get\<close> to a path writes the
  bytes and raises IntegrityMismatchError.
\<close>

theorem get_foreign_object_counterexample:
  "map_of (so_metadata (snd (hd (objects foreign_world)))) ''dg-file-sha256'' = None
   \<and> get example_ports foreign_world \<lparr> ok_bucket = ''b'', ok_key = ''raw.bin'' \<rparr>
     = (Inl IntegrityMismatchError, foreign_world\<lparr> out := PathSink (Some [1, 2, 3]) \<rparr>)"
  by (simp add: get_def get_direct_def storage_head_def storage_get_def foreign_world_def
      empty_world_def full_key_def split_full_key_def is_path_def write_out_def truthy_def
      resolve_metadata_def dg_key_def example_ports_def Let_def)

lemma cache_reference_success:
  "cache_reference P w ds sha = (Inr u, w1) \<Longrightarrow>
   objects w1 = objects w \<and> tmp_files w1 = tmp_files w \<and> out w1 = out w"
  by (auto simp: cache_reference_def Let_def mk_tmp_def rm_tmp_def cache_write_ref_def
      storage_get_def split: sum.splits if_splits option.splits)

lemma ensure_cached_success:
  "(if \<not> hit then cache_reference P w ds sha else (Inr (), w)) = (Inr u, w1) \<Longrightarrow>
   objects w1 = objects w \<and> tmp_files w1 = tmp_files w \<and> out w1 = out w"
  using cache_reference_success [of P w ds sha u w1] by (auto split: if_splits)

lemma storage_get_objects: "objects w' = objects w \<Longrightarrow> storage_get w' fk = storage_get w fk"
  by (simp add: storage_get_def)

text \<open>
  Claim C3: in \<open>get\<close> of a delta object (metadata with \<open>dg-file-sha256\<close>, compression
  not "none") that reaches the decoder, the decoded output is hashed and compared with
  the \<open>file_sha256\<close> of the delta's metadata. When they differ, \<open>get\<close> raises
  IntegrityMismatchError, the destination is as it was, and no temporary file of the
  operation is left (nor is the store changed).
\<close>

theorem get_delta_integrity_mismatch:
  assumes head: "storage_head w (full_key object_key) = Some obj_head"
    and dg: "map_of (oh_metadata obj_head) ''dg-file-sha256'' \<noteq> None"
    and nd: "map_of (oh_metadata obj_head) ''compression'' \<noteq> Some ''none''"
    and dm: "DeltaMeta_from_dict (oh_metadata obj_head) = Inr delta_meta"
    and ds: "delta_space = \<lparr> ds_bucket = ok_bucket object_key,
               ds_prefix = (if CHR ''/'' \<in> set (dm_ref_key delta_meta)
                            then parent_prefix (dm_ref_key delta_meta) else []) \<rparr>"
    and cached: "(if \<not> cache_has_ref P w (ds_bucket delta_space) (ds_prefix delta_space)
                        (dm_ref_sha256 delta_meta)
                  then cache_reference P w delta_space (dm_ref_sha256 delta_meta)
                  else (Inr (), w)) = (Inr (), w1)"
    and ref: "cache_get_validated_ref P w1 (ds_bucket delta_space) (ds_prefix delta_space)
                (dm_ref_sha256 delta_meta) = Inr ref"
    and delta: "storage_get w (full_key object_key) = Inr delta"
    and decoded: "diff_decode P ref delta = Some output"
    and differ: "sha256 P output \<noteq> dm_file_sha256 delta_meta"
  shows "fst (get P w object_key) = Inl IntegrityMismatchError
         \<and> out (snd (get P w object_key)) = out w
         \<and> tmp_files (snd (get P w object_key)) = tmp_files w
         \<and> objects (snd (get P w object_key)) = objects w"
proof -
  have same: "objects w1 = objects w" "tmp_files w1 = tmp_files w" "out w1 = out w"
    using ensure_cached_success [OF cached] by auto
  have ref': "cache_get_validated_ref P (mk_tmp w1 ''tmpdir'') (ds_bucket delta_space)
                (ds_prefix delta_space) (dm_ref_sha256 delta_meta) = Inr ref"
    using ref by (auto simp: cache_get_validated_ref_def mk_tmp_def split: if_splits)
  have delta': "storage_get (mk_tmp (mk_tmp w1 ''tmpdir'') ''tmpdir/delta'') (full_key object_key)
                = Inr delta"
    using delta same(1) by (simp add: storage_get_def mk_tmp_def)
  have body: "\<exists>w3. decode_in_tmpdir P (mk_tmp w1 ''tmpdir'') object_key delta_space delta_meta
                 = (Inl IntegrityMismatchError, w3)
               \<and> tmp_files w3 = ''tmpdir/output'' # ''tmpdir/delta'' # ''tmpdir'' # tmp_files w1
               \<and> out w3 = out w1 \<and> objects w3 = objects w1"
    using decoded differ
    apply (simp add: decode_in_tmpdir_def ref' delta' Let_def)
    apply (simp add: mk_tmp_def)
    done
  then obtain w3 where w3:
    "decode_in_tmpdir P (mk_tmp w1 ''tmpdir'') object_key delta_space delta_meta
       = (Inl IntegrityMismatchError, w3)"
    "tmp_files w3 = ''tmpdir/output'' # ''tmpdir/delta'' # ''tmpdir'' # tmp_files w1"
    "out w3 = out w1" "objects w3 = objects w1"
    by blast
  have "get P w object_key = get_delta P w object_key delta_meta"
    using head dg nd dm by (auto simp: get_def)
  also have "\<dots> = (Inl IntegrityMismatchError, leave_tmpdir w3)"
    using cached w3(1) unfolding get_delta_def Let_def ds [symmetric] by simp
  finally show ?thesis
    using same w3 by (simp add: leave_tmpdir_def Let_def)
qed

theorem get_delta_integrity_mismatch_witness:
  "fst (get example_ports damaged_world \<lparr> ok_bucket = ''b'', ok_key = ''rel/v2.zip.delta'' \<rparr>)
     = Inl IntegrityMismatchError
   \<and> out (snd (get example_ports damaged_world \<lparr> ok_bucket = ''b'', ok_key = ''rel/v2.zip.delta'' \<rparr>))
     = StreamSink [9]
   \<and> tmp_files (snd (get example_ports damaged_world \<lparr> ok_bucket = ''b'', ok_key = ''rel/v2.zip.delta'' \<rparr>))
     = []"
proof -
  let ?k = "\<lparr> ok_bucket = ''b'', ok_key = ''rel/v2.zip.delta'' \<rparr>"
  let ?md = "[(''dg-tool'', ''deltaglider/test''), (''dg-original-name'', ''v2.zip''),
              (''dg-file-sha256'', ''oee''), (''dg-file-size'', ''3''),
              (''dg-created-at'', ''2025-01-01T00:00:00''), (''dg-ref-key'', ''rel/reference.bin''),
              (''dg-ref-sha256'', ''oeo''), (''dg-delta-size'', ''3''),
              (''dg-delta-cmd'', ''xdelta3 -e -9 -s reference.bin v2.zip v2.zip.delta'')]"
  let ?dm = "\<lparr> dm_tool = ''deltaglider/test'', dm_original_name = ''v2.zip'',
               dm_file_sha256 = ''oee'', dm_file_size = 3,
               dm_created_at = ''2025-01-01T00:00:00'', dm_ref_key = ''rel/reference.bin'',
               dm_ref_sha256 = ''oeo'', dm_delta_size = 3,
               dm_delta_cmd = ''xdelta3 -e -9 -s reference.bin v2.zip v2.zip.delta'',
               dm_note = None \<rparr>"
  have h1: "storage_head damaged_world (full_key ?k) = Some \<lparr> oh_size = 3, oh_metadata = ?md \<rparr>"
    by code_simp
  have h2: "map_of (oh_metadata \<lparr> oh_size = 3, oh_metadata = ?md \<rparr>) ''dg-file-sha256'' \<noteq> None"
    by simp
  have h3: "map_of (oh_metadata \<lparr> oh_size = 3, oh_metadata = ?md \<rparr>) ''compression'' \<noteq> Some ''none''"
    by simp
  have h4: "DeltaMeta_from_dict (oh_metadata \<lparr> oh_size = 3, oh_metadata = ?md \<rparr>) = Inr ?dm"
    by code_simp
  have h5: "rel_space = \<lparr> ds_bucket = ok_bucket ?k,
               ds_prefix = (if CHR ''/'' \<in> set (dm_ref_key ?dm)
                            then parent_prefix (dm_ref_key ?dm) else []) \<rparr>"
    by code_simp
  have h6: "(if \<not> cache_has_ref example_ports damaged_world (ds_bucket rel_space)
                    (ds_prefix rel_space) (dm_ref_sha256 ?dm)
             then cache_reference example_ports damaged_world rel_space (dm_ref_sha256 ?dm)
             else (Inr (), damaged_world)) = (Inr (), damaged_world)"
    by code_simp
  have h7: "cache_get_validated_ref example_ports damaged_world (ds_bucket rel_space)
              (ds_prefix rel_space) (dm_ref_sha256 ?dm) = Inr [1, 2, 3]"
    by code_simp
  have h8: "storage_get damaged_world (full_key ?k) = Inr [6, 6, 6]"
    by code_simp
  have h9: "diff_decode example_ports [1, 2, 3] [6, 6, 6] = Some [6, 6, 6]"
    by (simp add: example_ports_def)
  have h10: "sha256 example_ports [6, 6, 6] \<noteq> dm_file_sha256 ?dm"
    by (simp add: example_ports_def)
  have o: "out damaged_world = StreamSink [9]" "tmp_files damaged_world = []"
    by code_simp+
  show ?thesis
    using get_delta_integrity_mismatch [OF h1 h2 h3 h4 h5 h6 h7 h8 h9 h10] o by simp
qed




text \<open>
  Claim C7: a cache that has exactly the members \<open>CachePort\<close> declares has no
  \<open>get_validated_ref\<close>, and \<open>get\<close> of a delta object raises AttributeError at the
  call.
\<close>

theorem declared_cache_port_lacks_validated_lookup:
  "''get_validated_ref'' \<notin> set CachePort_members
   \<and> fst (get (example_ports\<lparr> cache_has_get_validated_ref := False \<rparr>) world_after_v2
            \<lparr> ok_bucket = ''b'', ok_key = ''rel/v2.zip.delta'' \<rparr>) = Inl AttributeError"
  by code_simp

lemma storage_delete_head:
  "storage_delete w fk = Inr w1 \<Longrightarrow> storage_head w1 fk = None"
  by (auto simp: storage_delete_def storage_head_def delete_conv' split: if_splits)

lemma storage_delete_head_other:
  "storage_delete w fk = Inr w1 \<Longrightarrow> storage_head w fk' = None \<Longrightarrow> storage_head w1 fk' = None"
  by (auto simp: storage_delete_def storage_head_def delete_conv' split: if_splits option.splits)

lemma storage_delete_cache: "storage_delete w fk = Inr w1 \<Longrightarrow> cache w1 = cache w"
  by (auto simp: storage_delete_def split: if_splits)

text \<open>
  Claim C5, as the code has it: a successful \<open>delete\<close> of a key ending in \<open>.delta\<close>
  deletes the delta. When the key contains a \<open>/\<close>, no other \<open>.delta\<close> key is listed
  under the deltaspace prefix and \<open>reference.bin\<close> exists there, the reference is deleted
  too, the cache entry of the deltaspace is evicted and \<open>cleaned_reference\<close> is the
  reference key. When the key contains no \<open>/\<close> (a deltaspace at the root of the
  bucket), the function returns after deleting the delta and nothing else happens.
\<close>

theorem delete_delta_cleans_orphaned_reference:
  assumes head: "storage_head w (full_key object_key) = Some obj_head"
    and suffix: "endswith (ok_key object_key) ''.delta''"
    and ok: "delete w object_key = (Inr result, w')"
    and w1: "storage_delete w (full_key object_key) = Inr w1"
    and ref: "ref_key = parent_prefix (ok_key object_key) @ ''/reference.bin''"
  shows "storage_head w' (full_key object_key) = None
         \<and> dr_deleted result \<and> dr_type result = ''delta''
         \<and> (CHR ''/'' \<in> set (ok_key object_key)
              \<and> filter (\<lambda>k. endswith k ''.delta'' \<and> k \<noteq> ok_key object_key)
                   (storage_list w1 (ok_bucket object_key @ ''/'' @ parent_prefix (ok_key object_key))) = []
              \<and> storage_head w1 (ok_bucket object_key @ ''/'' @ ref_key) \<noteq> None
            \<longrightarrow> storage_head w' (ok_bucket object_key @ ''/'' @ ref_key) = None
                \<and> map_of (cache w') (ok_bucket object_key, parent_prefix (ok_key object_key)) = None
                \<and> dr_cleaned_reference result = Some ref_key)
         \<and> (CHR ''/'' \<notin> set (ok_key object_key)
            \<longrightarrow> w' = w1 \<and> dr_cleaned_reference result = None)"
proof -
  have notref: "\<not> endswith (ok_key object_key) ''/reference.bin''"
  proof
    assume "endswith (ok_key object_key) ''/reference.bin''"
    then obtain a where a: "ok_key object_key = a @ ''/reference.bin''"
      by (auto simp: endswith_def suffix_def)
    from suffix obtain c where c: "ok_key object_key = c @ ''.delta''"
      by (auto simp: endswith_def suffix_def)
    have "last (a @ ''/reference.bin'') = last (c @ ''.delta'')"
      using a c by simp
    then show False by simp
  qed
  have d: "delete w object_key
           = delete_delta w object_key (full_key object_key) obj_head (new_delete_result object_key)"
    using head suffix notref by (simp add: delete_def Let_def)
  have h1: "storage_head w1 (full_key object_key) = None"
    using storage_delete_head [OF w1] .
  let ?r1 = "(new_delete_result object_key)\<lparr> dr_deleted := True, dr_type := ''delta'',
               dr_original_name := Some (case map_of (oh_metadata obj_head) ''original_name'' of
                                           None \<Rightarrow> ''unknown'' | Some n \<Rightarrow> n) \<rparr>"
  let ?reffk = "ok_bucket object_key @ ''/'' @ ref_key"
  show ?thesis
  proof (cases "CHR ''/'' \<in> set (ok_key object_key)")
    case False
    then have "delete w object_key = (Inr ?r1, w1)"
      unfolding d delete_delta_def w1 by (simp add: Let_def)
    then show ?thesis
      using ok h1 False by (auto simp: new_delete_result_def)
  next
    case True
    show ?thesis
    proof (cases "filter (\<lambda>k. endswith k ''.delta'' \<and> k \<noteq> ok_key object_key)
                    (storage_list w1 (ok_bucket object_key @ ''/'' @ parent_prefix (ok_key object_key))) = []
                  \<and> storage_head w1 ?reffk \<noteq> None")
      case False
      then have "delete w object_key = (Inr ?r1, w1)"
        using True unfolding d delete_delta_def w1 ref
        by (auto simp: Let_def split: option.splits)
      then show ?thesis
        using ok h1 True False by (auto simp: new_delete_result_def)
    next
      case cleanup: True
      then obtain rh where rh: "storage_head w1 ?reffk = Some rh" by auto
      have e: "delete w object_key =
                 (case storage_delete w1 ?reffk of
                    Inl e \<Rightarrow> (Inl e, w1)
                  | Inr w2 \<Rightarrow> (Inr (?r1\<lparr> dr_cleaned_reference := Some ref_key \<rparr>),
                               cache_evict w2 (ok_bucket object_key) (parent_prefix (ok_key object_key))))"
        using True cleanup rh unfolding d delete_delta_def w1 ref
        by (simp add: Let_def)
      from ok e obtain w2 where w2: "storage_delete w1 ?reffk = Inr w2"
        and res: "result = ?r1\<lparr> dr_cleaned_reference := Some ref_key \<rparr>"
        and w': "w' = cache_evict w2 (ok_bucket object_key) (parent_prefix (ok_key object_key))"
        by (auto split: sum.splits)
      have "storage_head w2 (full_key object_key) = None"
        using storage_delete_head_other [OF w2 h1] .
      moreover have "storage_head w2 ?reffk = None"
        using storage_delete_head [OF w2] .
      ultimately show ?thesis
        using True res w'
        by (simp add: storage_head_def cache_evict_def delete_conv' new_delete_result_def)
    qed
  qed
qed

theorem delete_delta_witness:
  "storage_head (snd (delete world_after_v1 \<lparr> ok_bucket = ''b'', ok_key = ''rel/v1.zip.delta'' \<rparr>))
       ''b/rel/v1.zip.delta'' = None
   \<and> storage_head (snd (delete world_after_v1 \<lparr> ok_bucket = ''b'', ok_key = ''rel/v1.zip.delta'' \<rparr>))
       ''b/rel/reference.bin'' = None
   \<and> map_of (cache (snd (delete world_after_v1 \<lparr> ok_bucket = ''b'', ok_key = ''rel/v1.zip.delta'' \<rparr>)))
       (''b'', ''rel'') = None
   \<and> dr_cleaned_reference
       (projr (fst (delete world_after_v1 \<lparr> ok_bucket = ''b'', ok_key = ''rel/v1.zip.delta'' \<rparr>)))
     = Some ''rel/reference.bin''"
proof -
  let ?k = "\<lparr> ok_bucket = ''b'', ok_key = ''rel/v1.zip.delta'' \<rparr>"
  let ?w1 = "projr (storage_delete world_after_v1 (full_key ?k))"
  have h1: "storage_head world_after_v1 (full_key ?k)
            = Some (the (storage_head world_after_v1 (full_key ?k)))"
    by code_simp
  have h2: "endswith (ok_key ?k) ''.delta''"
    by code_simp
  have h3: "delete world_after_v1 ?k
            = (Inr (projr (fst (delete world_after_v1 ?k))), snd (delete world_after_v1 ?k))"
    by code_simp
  have h4: "storage_delete world_after_v1 (full_key ?k) = Inr ?w1"
    by code_simp
  have h5: "''rel/reference.bin'' = parent_prefix (ok_key ?k) @ ''/reference.bin''"
    by code_simp
  have c1: "CHR ''/'' \<in> set (ok_key ?k)"
    by simp
  have c2: "filter (\<lambda>k. endswith k ''.delta'' \<and> k \<noteq> ok_key ?k)
              (storage_list ?w1 (ok_bucket ?k @ ''/'' @ parent_prefix (ok_key ?k))) = []"
    by code_simp
  have c3: "storage_head ?w1 (ok_bucket ?k @ ''/'' @ ''rel/reference.bin'') \<noteq> None"
    by code_simp
  have p: "parent_prefix (ok_key ?k) = ''rel''" "full_key ?k = ''b/rel/v1.zip.delta''"
    by code_simp+
  show ?thesis
    using delete_delta_cleans_orphaned_reference [OF h1 h2 h3 h4 h5] c1 c2 c3 p
    by simp
qed

text \<open>
  Claim C5 as stated fails at the root of a bucket: \<open>root_world\<close> holds
  \<open>reference.bin\<close> and the single delta \<open>v1.zip.delta\<close>; deleting the delta leaves the
  reference and its cache entry in place and records no cleaned reference.
\<close>

theorem delete_root_delta_counterexample:
  "endswith ''v1.zip.delta'' ''.delta''
   \<and> storage_list root_world ''b'' = [''reference.bin'', ''v1.zip.delta'']
   \<and> storage_list (snd (delete root_world \<lparr> ok_bucket = ''b'', ok_key = ''v1.zip.delta'' \<rparr>)) ''b''
     = [''reference.bin'']
   \<and> cache (snd (delete root_world \<lparr> ok_bucket = ''b'', ok_key = ''v1.zip.delta'' \<rparr>))
     = [((''b'', []), [1, 2, 3])]
   \<and> map_sum id dr_cleaned_reference
       (fst (delete root_world \<lparr> ok_bucket = ''b'', ok_key = ''v1.zip.delta'' \<rparr>))
     = Inr None"
  by code_simp






text \<open>
  When the store refuses the delete of a delta inside the deletion prefix, the delta
  stays, is not counted as remaining, and its reference is deleted.
\<close>

lemma refused_delete_leaves_delta_without_reference:
  "storage_list locked_world ''b'' = [''rel/reference.bin'', ''rel/v1.zip.delta'', ''rel/v2.zip.delta'']
   \<and> storage_list (snd (delete_recursive locked_world ''b'' ''rel'')) ''b'' = [''rel/v1.zip.delta'']
   \<and> rd_errors (fst (delete_recursive locked_world ''b'' ''rel'')) = [''Failed to delete rel/v1.zip.delta'']
   \<and> rd_warnings (fst (delete_recursive locked_world ''b'' ''rel'')) = []"
  by code_simp






lemma cache_reference_cache:
  "cache_reference P w ds sha = (Inr u, w1) \<Longrightarrow> objects w1 = objects w \<and> calls w1 = calls w"
  by (auto simp: cache_reference_def Let_def mk_tmp_def rm_tmp_def cache_write_ref_def
      storage_get_def split: sum.splits if_splits option.splits)








end
